theory Spec2Isabelle
  imports Main "HOL-Library.Word" "HOL-Library.AList"
begin

unbundle bit_operations_syntax

section \<open>Data model\<close>

text \<open>
  Go's \<open>int64\<close> is a 64-bit word read as two's complement (\<open>sint\<close>); \<open>+\<close> and unary
  minus wrap around as they do in Go. A \<open>[]byte\<close> is a list of 8-bit words, a Go
  \<open>string\<close> an Isabelle \<open>string\<close>.
\<close>

type_synonym int64 = "64 word"
type_synonym bytes = "8 word list"

text \<open>
  A \<open>time.Time\<close> without monotonic clock reading (the only kind that \<open>os.FileInfo\<close>,
  \<open>time.Unix\<close> and the remote listing produce) is an instant on the time line. It is
  modelled by its distance from the Unix epoch in nanoseconds, as an unbounded integer:
  the range of \<open>time.Time\<close> (64-bit seconds) is much wider than 64-bit nanoseconds.
  A \<open>time.Duration\<close> is an \<open>int64\<close> count of nanoseconds.
\<close>

type_synonym gotime = int
type_synonym Duration = int64

definition Second :: Duration where
  "Second = 1000000000"

definition minDuration :: Duration where
  "minDuration = word_of_int (- (2 ^ 63))"

definition maxDuration :: Duration where
  "maxDuration = word_of_int (2 ^ 63 - 1)"

text \<open>\<open>time.Unix(0, nsec)\<close>: the instant \<open>nsec\<close> nanoseconds after the epoch.\<close>

definition Unix0 :: "int64 \<Rightarrow> gotime" where
  "Unix0 nsec = sint nsec"

text \<open>
  \<open>t.Sub(u)\<close> of package \<open>time\<close>: the duration \<open>t - u\<close>; when the result does not fit
  a \<open>Duration\<close>, the minimum respectively maximum duration is returned.
\<close>

definition Sub :: "gotime \<Rightarrow> gotime \<Rightarrow> Duration" where
  "Sub t u =
     (let d = t - u
      in if d < - (2 ^ 63) then minDuration
         else if 2 ^ 63 - 1 < d then maxDuration
         else word_of_int d)"

text \<open>\<open>t.UnixNano()\<close>: the nanoseconds since the epoch, truncated to 64 bits.\<close>

definition UnixNano :: "gotime \<Rightarrow> int64" where
  "UnixNano t = word_of_int t"

text \<open>The zero \<open>time.Time\<close> is January 1 of year 1, 00:00 UTC.\<close>

definition zeroTime :: gotime where
  "zeroTime = - 62135596800 * 1000000000"

definition IsZero :: "gotime \<Rightarrow> bool" where
  "IsZero t = (t = zeroTime)"

text \<open>\<open>fs.FileMeta\<close> (internal/fs/interface.go).\<close>

record FileMeta =
  RelPath :: string
  Size :: int64
  ModTime :: gotime
  IsDir :: bool
  Hash :: string
  RemoteHash :: string

text \<open>\<open>database.FileState\<close> (internal/database/model.go); \<open>ModTime\<close> is Unix nanoseconds.\<close>

record FileState =
  st_RelPath :: string
  FileSize :: int64
  st_ModTime :: int64
  LocalHash :: string
  st_RemoteHash :: string
  st_IsDir :: bool
  LastSyncTime :: int64

text \<open>\<open>OpType\<close> and \<open>Task\<close> of package \<open>sync\<close>.\<close>

datatype OpType = OpIgnore | OpUpload | OpDownload | OpDeleteRemote | OpDeleteLocal | OpConflict

record Task =
  Op :: OpType
  t_RelPath :: string
  Reason :: string

section \<open>The diff decider (internal/sync/diff.go)\<close>

definition EncryptedOverhead :: int64 where
  "EncryptedOverhead = 16"

text \<open>
  \<open>isSameFileFuzzy\<close> and \<open>compare\<close> are methods of the engine and read one thing of it,
  \<open>len(e.opts.EncryptKey) > 0\<close>; the key is their first argument here.
\<close>

definition isSameFileFuzzy :: "bytes \<Rightarrow> FileMeta \<Rightarrow> FileMeta \<Rightarrow> bool" where
  "isSameFileFuzzy key l r =
     (let expectedRemoteSize = Size l;
          expectedRemoteSize = (if length key > 0 then expectedRemoteSize + EncryptedOverhead
                                else expectedRemoteSize)
      in Size r = expectedRemoteSize)"

definition isLocalSameAsBase :: "FileMeta \<Rightarrow> FileState \<Rightarrow> bool" where
  "isLocalSameAsBase l b =
     (if Hash l \<noteq> [] \<and> LocalHash b \<noteq> [] then Hash l = LocalHash b
      else if Size l \<noteq> FileSize b then False
      else (let baseTime = Unix0 (st_ModTime b);
                diff = Sub (ModTime l) baseTime;
                diff = (if diff <s 0 then - diff else diff)
            in diff <s 2 * Second))"

definition isRemoteSameAsBase :: "FileMeta \<Rightarrow> FileState \<Rightarrow> bool \<Rightarrow> bool" where
  "isRemoteSameAsBase r b encrypted =
     (if RemoteHash r \<noteq> [] \<and> st_RemoteHash b \<noteq> [] then RemoteHash r = st_RemoteHash b
      else (let expectedSize = FileSize b;
                expectedSize = (if encrypted then expectedSize + EncryptedOverhead
                                else expectedSize)
            in Size r = expectedSize))"

text \<open>A nil pointer is \<open>None\<close>. The log lines of \<open>compare\<close> have no effect on its result.\<close>

definition compare ::
  "bytes \<Rightarrow> string \<Rightarrow> FileMeta option \<Rightarrow> FileMeta option \<Rightarrow> FileState option \<Rightarrow> OpType" where
  "compare key relPath local remote base =
     (if (local \<noteq> None \<and> IsDir (the local)) \<or> (remote \<noteq> None \<and> IsDir (the remote))
      then OpIgnore
      else case base of
        None \<Rightarrow>
          (if local \<noteq> None \<and> remote = None then OpUpload
           else if local = None \<and> remote \<noteq> None then OpDownload
           else if local \<noteq> None \<and> remote \<noteq> None then
             (if isSameFileFuzzy key (the local) (the remote) then OpIgnore else OpConflict)
           else OpIgnore)
      | Some b \<Rightarrow>
          (case local of
             None \<Rightarrow>
               (case remote of
                  None \<Rightarrow> OpIgnore
                | Some r \<Rightarrow>
                    if isRemoteSameAsBase r b (length key > 0) then OpDeleteRemote
                    else OpDownload)
           | Some l \<Rightarrow>
               (case remote of
                  None \<Rightarrow> if isLocalSameAsBase l b then OpDeleteLocal else OpUpload
                | Some r \<Rightarrow>
                    (let localChanged = \<not> isLocalSameAsBase l b;
                         remoteChanged = \<not> isRemoteSameAsBase r b (length key > 0)
                     in if \<not> localChanged \<and> \<not> remoteChanged then OpIgnore
                        else if localChanged \<and> \<not> remoteChanged then OpUpload
                        else if \<not> localChanged \<and> remoteChanged then OpDownload
                        else OpConflict))))"

section \<open>Errors, streams and the library\<close>

text \<open>
  A Go \<open>error\<close> is a value: a plain message, a message wrapping another error
  (\<open>fmt.Errorf("...: %w", err)\<close>) or a message over a list of errors
  (\<open>fmt.Errorf("%d ...: %v", len(errs), errs)\<close>). The texts are given in English.
\<close>

datatype err = Err string | Wrap string err | Errs string "err list"

text \<open>\<open>err.Error()\<close>, the text of an error.\<close>

fun Error :: "err \<Rightarrow> string" where
  "Error (Err s) = s"
| "Error (Wrap s e) = s @ '': '' @ Error e"
| "Error (Errs s es) = s @ '': '' @ concat (map Error es)"

text \<open>
  An \<open>io.Reader\<close> read to its end delivers some bytes and then either \<open>io.EOF\<close>
  (\<open>None\<close>) or a read error. \<open>io.ReadFull\<close> takes exactly \<open>n\<close> bytes off a reader and
  fails when it ends before; \<open>io.MultiReader\<close> reads one reader after the other.
\<close>

datatype stream = Stream bytes "err option"

definition ReadFull :: "nat \<Rightarrow> stream \<Rightarrow> err + (bytes \<times> stream)" where
  "ReadFull n s =
     (case s of Stream bs fault \<Rightarrow>
        if n \<le> length bs then Inr (take n bs, Stream (drop n bs) fault)
        else (case fault of
                Some e \<Rightarrow> Inl e
              | None \<Rightarrow> Inl (Err (if bs = [] then ''EOF'' else ''unexpected EOF''))))"

definition MultiReader :: "stream \<Rightarrow> stream \<Rightarrow> stream" where
  "MultiReader s1 s2 =
     (case s1 of Stream a fa \<Rightarrow>
        (case fa of
           Some e \<Rightarrow> Stream a (Some e)
         | None \<Rightarrow> (case s2 of Stream b fb \<Rightarrow> Stream (a @ b) fb)))"

text \<open>
  The functions of the Go standard library on which a result depends are parameters of
  the model, collected in one record:
  \<^item> \<open>aes_Encrypt key block\<close>: the AES encryption of one 16-byte block (read as a
    big-endian 128-bit number) under a key that \<open>aes.NewCipher\<close> accepted;
  \<^item> \<open>md5_hex\<close>: \<open>hex.EncodeToString\<close> of the MD5 digest;
  \<^item> \<open>json_Marshal\<close>, \<open>json_Unmarshal\<close>: \<open>encoding/json\<close> on a \<open>FileState\<close>;
  \<^item> \<open>json_Marshal_strings\<close>, \<open>json_Unmarshal_PCSResponse\<close>: the same on a
    \<open>[]string\<close> and on a \<open>PCSResponse\<close>;
  \<^item> \<open>url_Encode\<close>: \<open>url.Values.Encode\<close>; \<open>path_Join\<close>: \<open>path.Join\<close>;
  \<^item> \<open>sha256_Sum\<close>, \<open>gcm_Seal key nonce plaintext\<close>, \<open>base64_URLEncode\<close>: the pieces of
    the file-name cipher.
\<close>

text \<open>\<open>PCSResponse\<close> (internal/fs/baidu/types.go), the shell of every response of the remote API.\<close>

record PCSResponse =
  ErrNo :: int
  Msg :: string

record golib =
  aes_Encrypt :: "bytes \<Rightarrow> 128 word \<Rightarrow> 128 word"
  md5_hex :: "bytes \<Rightarrow> string"
  json_Marshal :: "FileState \<Rightarrow> err + bytes"
  json_Unmarshal :: "bytes \<Rightarrow> err + FileState"
  json_Marshal_strings :: "string list \<Rightarrow> err + string"
  json_Unmarshal_PCSResponse :: "bytes \<Rightarrow> err + PCSResponse"
  url_Encode :: "(string \<times> string) list \<Rightarrow> string"
  path_Join :: "string list \<Rightarrow> string"
  sha256_Sum :: "bytes \<Rightarrow> bytes"
  gcm_Seal :: "bytes \<Rightarrow> bytes \<Rightarrow> bytes \<Rightarrow> bytes"
  base64_URLEncode :: "bytes \<Rightarrow> string"

section \<open>The stream cipher (internal/crypto)\<close>

text \<open>\<open>aes.NewCipher\<close> accepts keys of 16, 24 and 32 bytes and no other.\<close>

definition aes_NewCipher :: "bytes \<Rightarrow> err + bytes" where
  "aes_NewCipher key =
     (if length key = 16 \<or> length key = 24 \<or> length key = 32 then Inr key
      else Inl (Err ''crypto/aes: invalid key size''))"

text \<open>
  \<open>cipher.NewCTR(block, iv)\<close>: the counter starts at the IV, read as a big-endian
  128-bit number, and is incremented by one (wrapping) after each block; the key stream
  is the sequence of the encrypted counter blocks, and \<open>XORKeyStream\<close> combines it with
  the data byte by byte. A \<open>cipher.StreamReader\<close> does so with everything it reads and
  passes a read error on.
\<close>

definition be128 :: "bytes \<Rightarrow> 128 word" where
  "be128 bs = foldl (\<lambda>acc b. push_bit 8 acc OR ucast b) 0 bs"

definition block_byte :: "128 word \<Rightarrow> nat \<Rightarrow> 8 word" where
  "block_byte w j = ucast (drop_bit (8 * (15 - j)) w)"

definition keystream_byte :: "golib \<Rightarrow> bytes \<Rightarrow> bytes \<Rightarrow> nat \<Rightarrow> 8 word" where
  "keystream_byte L key iv i =
     block_byte (aes_Encrypt L key (be128 iv + of_nat (i div 16))) (i mod 16)"

definition XORKeyStream :: "golib \<Rightarrow> bytes \<Rightarrow> bytes \<Rightarrow> bytes \<Rightarrow> bytes" where
  "XORKeyStream L key iv src =
     map (\<lambda>(i, b). b XOR keystream_byte L key iv i) (zip [0..<length src] src)"

definition StreamReader :: "golib \<Rightarrow> bytes \<Rightarrow> bytes \<Rightarrow> stream \<Rightarrow> stream" where
  "StreamReader L key iv src =
     (case src of Stream bs fault \<Rightarrow> Stream (XORKeyStream L key iv bs) fault)"

text \<open>
  \<open>NewEncryptReader(src, key)\<close>. The IV is read off \<open>rand.Reader\<close>, the last
  argument; the reader left behind is returned with the result.
\<close>

definition NewEncryptReader ::
  "golib \<Rightarrow> stream \<Rightarrow> bytes \<Rightarrow> stream \<Rightarrow> err + (stream \<times> stream)" where
  "NewEncryptReader L src key rnd =
     (case aes_NewCipher key of
        Inl e \<Rightarrow> Inl (Wrap ''invalid key'' e)
      | Inr block \<Rightarrow>
          (case ReadFull 16 rnd of
             Inl e \<Rightarrow> Inl (Wrap ''generating the IV failed'' e)
           | Inr (iv, rnd') \<Rightarrow>
               Inr (MultiReader (Stream iv None) (StreamReader L block iv src), rnd')))"

definition NewDecryptReader :: "golib \<Rightarrow> stream \<Rightarrow> bytes \<Rightarrow> err + stream" where
  "NewDecryptReader L src key =
     (case aes_NewCipher key of
        Inl e \<Rightarrow> Inl (Wrap ''invalid key'' e)
      | Inr block \<Rightarrow>
          (case ReadFull 16 src of
             Inl e \<Rightarrow> Inl (Wrap ''reading the IV failed or file too short'' e)
           | Inr (iv, rest) \<Rightarrow> Inr (StreamReader L block iv rest)))"

section \<open>The snapshot store (package database)\<close>

text \<open>
  The bbolt database behind \<open>DB\<close>: the content of the bucket \<open>FileSnapshots\<close>, which
  \<open>NewBoltDB\<close> creates, as a list of keys with their values, and the fate of the
  transactions to come. Each \<open>View\<close> or \<open>Update\<close> takes the head of \<open>tx_faults\<close>:
  \<open>Some e\<close> makes the transaction fail with \<open>e\<close> (disk full, database closed) and leave
  the bucket as it was; with \<open>None\<close>, or when the list is empty, it runs. An \<open>Update\<close>
  whose function returns an error is rolled back.
\<close>

record bolt =
  kv :: "(string \<times> bytes) list"
  tx_faults :: "err option list"

definition begin_tx :: "bolt \<Rightarrow> err option \<times> bolt" where
  "begin_tx db =
     (case tx_faults db of
        [] \<Rightarrow> (None, db)
      | f # fs \<Rightarrow> (f, db\<lparr>tx_faults := fs\<rparr>))"

definition Update ::
  "((string \<times> bytes) list \<Rightarrow> err + (string \<times> bytes) list) \<Rightarrow> bolt \<Rightarrow> err option \<times> bolt" where
  "Update fn db =
     (case begin_tx db of
        (Some e, db') \<Rightarrow> (Some e, db')
      | (None, db') \<Rightarrow>
          (case fn (kv db') of
             Inl e \<Rightarrow> (Some e, db')
           | Inr kv' \<Rightarrow> (None, db'\<lparr>kv := kv'\<rparr>)))"

text \<open>
  \<open>Bucket.Put\<close> refuses an empty key, a key of more than \<open>MaxKeySize\<close> bytes and a value
  of more than \<open>MaxValueSize\<close> bytes; \<open>Bucket.Delete\<close> of a key that is not there is no error.
\<close>

definition Bucket_Put ::
  "string \<Rightarrow> bytes \<Rightarrow> (string \<times> bytes) list \<Rightarrow> err + (string \<times> bytes) list" where
  "Bucket_Put key val b =
     (if length key = 0 then Inl (Err ''key required'')
      else if length key > 32768 then Inl (Err ''key too large'')
      else if length val > 2147483646 then Inl (Err ''value too large'')
      else Inr (AList.update key val b))"

definition Bucket_Delete ::
  "string \<Rightarrow> (string \<times> bytes) list \<Rightarrow> err + (string \<times> bytes) list" where
  "Bucket_Delete key b = Inr (AList.delete key b)"

text \<open>\<open>DB.Get\<close>: a missing key is \<open>(nil, nil)\<close>, by way of the error text \<open>not found\<close>.\<close>

definition DB_Get :: "golib \<Rightarrow> string \<Rightarrow> bolt \<Rightarrow> (err + FileState option) \<times> bolt" where
  "DB_Get L relPath db =
     (case begin_tx db of (fault, db') \<Rightarrow>
        (let res = (case fault of
                      Some e \<Rightarrow> Inl e
                    | None \<Rightarrow>
                        (case map_of (kv db') relPath of
                           None \<Rightarrow> Inl (Err ''not found'')
                         | Some v \<Rightarrow> map_sum id Some (json_Unmarshal L v)))
         in case res of
              Inl e \<Rightarrow> if Error e = ''not found'' then (Inr None, db') else (Inl e, db')
            | Inr st \<Rightarrow> (Inr st, db')))"

text \<open>\<open>DB.Put\<close>; the time of the call is its second argument.\<close>

definition DB_Put :: "golib \<Rightarrow> gotime \<Rightarrow> FileState \<Rightarrow> bolt \<Rightarrow> err option \<times> bolt" where
  "DB_Put L now state db =
     (let state = state\<lparr>LastSyncTime := UnixNano now\<rparr>
      in case json_Marshal L state of
           Inl e \<Rightarrow> (Some (Wrap ''marshalling failed'' e), db)
         | Inr data \<Rightarrow> Update (Bucket_Put (st_RelPath state) data) db)"

definition DB_Delete :: "string \<Rightarrow> bolt \<Rightarrow> err option \<times> bolt" where
  "DB_Delete relPath db = Update (Bucket_Delete relPath) db"

text \<open>
  \<open>DB.ListAll\<close>: \<open>ForEach\<close> visits the pairs of the bucket in their order and stops at
  the first error of its function. The Go map that is returned is a list of keys with
  their states, each key once.
\<close>

fun ForEach_unmarshal ::
  "golib \<Rightarrow> (string \<times> bytes) list \<Rightarrow> (string \<times> FileState) list
     \<Rightarrow> err + (string \<times> FileState) list" where
  "ForEach_unmarshal L [] result = Inr result"
| "ForEach_unmarshal L ((k, v) # rest) result =
     (case json_Unmarshal L v of
        Inl e \<Rightarrow> Inl (Wrap (''parsing the data failed key='' @ k) e)
      | Inr state \<Rightarrow> ForEach_unmarshal L rest (AList.update k state result))"

definition DB_ListAll :: "golib \<Rightarrow> bolt \<Rightarrow> (err + (string \<times> FileState) list) \<times> bolt" where
  "DB_ListAll L db =
     (case begin_tx db of
        (Some e, db') \<Rightarrow> (Inl e, db')
      | (None, db') \<Rightarrow> (ForEach_unmarshal L (kv db') [], db'))"

section \<open>The file system port (internal/fs)\<close>

text \<open>
  The interface \<open>fs.FileSystem\<close>: a record of its methods over the state \<open>'s\<close> of the
  file system behind it. Each method returns its Go result together with the state it
  leaves. The map of \<open>ListAll\<close> is a list of paths with their metadata.
\<close>

record 's FileSystem =
  fs_ListAll :: "'s \<Rightarrow> (err + (string \<times> FileMeta) list) \<times> 's"
  fs_OpenStream :: "string \<Rightarrow> 's \<Rightarrow> (err + stream) \<times> 's"
  fs_WriteStream :: "string \<Rightarrow> stream \<Rightarrow> gotime \<Rightarrow> 's \<Rightarrow> (err + string) \<times> 's"
  fs_Delete :: "string \<Rightarrow> 's \<Rightarrow> err option \<times> 's"
  fs_Stat :: "string \<Rightarrow> 's \<Rightarrow> (err + FileMeta) \<times> 's"
  fs_Rename :: "string \<Rightarrow> string \<Rightarrow> 's \<Rightarrow> err option \<times> 's"

subsection \<open>The local disk (internal/fs/local)\<close>

text \<open>
  The disk is the list of its paths, each a regular file with content and modification
  time or a directory with the size and time that \<open>os.Stat\<close> reports for it, and the
  clock that stamps what is created. Paths are slash-separated system paths. The disk is
  healthy: a call of package \<open>os\<close> fails for what the tree shows (a missing path, a
  directory in the place of a file, a file in the place of a directory) and not for
  permissions or I/O errors.
\<close>

datatype node = File bytes gotime | Dir int64 gotime

record disk =
  nodes :: "(string \<times> node) list"
  os_now :: gotime

record local_Adapter =
  rootDir :: string

text \<open>
  \<open>toSysPath\<close> is \<open>filepath.Join(a.rootDir, filepath.FromSlash(relPath))\<close>. On a
  canonical relative path (spec section 3) and with \<open>/\<close> as separator the join puts
  the separator between the two, and \<open>Join\<close> drops an empty element.
\<close>

definition toSysPath :: "local_Adapter \<Rightarrow> string \<Rightarrow> string" where
  "toSysPath a relPath = (if relPath = [] then rootDir a else rootDir a @ ''/'' @ relPath)"

text \<open>
  \<open>filepath.Dir\<close> of a clean path: the path up to its last separator, \<open>.\<close> when there is
  none, the root for a path right below it. \<open>ancestors p\<close> are the directories above
  \<open>p\<close>, outermost first. \<open>os.MkdirAll(dir)\<close> makes \<open>dir\<close> and every missing directory
  above it and fails at a regular file in the way.
\<close>

definition filepath_Dir :: "string \<Rightarrow> string" where
  "filepath_Dir p =
     (let d = rev (dropWhile (\<lambda>c. c \<noteq> CHR ''/'') (rev p))
      in if d = [] then ''.'' else if d = ''/'' then ''/'' else butlast d)"

definition ancestors :: "string \<Rightarrow> string list" where
  "ancestors p = map (\<lambda>i. take i p) (filter (\<lambda>i. p ! i = CHR ''/'') [1..<length p])"

definition os_Mkdir :: "string \<Rightarrow> disk \<Rightarrow> err + disk" where
  "os_Mkdir p d =
     (case map_of (nodes d) p of
        Some (File c t) \<Rightarrow> Inl (Err ''not a directory'')
      | Some (Dir s t) \<Rightarrow> Inr d
      | None \<Rightarrow> Inr (d\<lparr>nodes := AList.update p (Dir 4096 (os_now d)) (nodes d)\<rparr>))"

fun os_Mkdirs :: "string list \<Rightarrow> disk \<Rightarrow> err + disk" where
  "os_Mkdirs [] d = Inr d"
| "os_Mkdirs (p # ps) d = (case os_Mkdir p d of Inl e \<Rightarrow> Inl e | Inr d' \<Rightarrow> os_Mkdirs ps d')"

definition os_MkdirAll :: "string \<Rightarrow> disk \<Rightarrow> err + disk" where
  "os_MkdirAll dir d = os_Mkdirs (ancestors dir @ [dir]) d"

text \<open>
  \<open>os.Create\<close> makes the file or truncates it, and fails on a directory;
  \<open>io.Copy(f, stream)\<close> writes what the stream delivers; \<open>os.Chtimes\<close> sets the
  modification time.
\<close>

definition os_Create :: "string \<Rightarrow> disk \<Rightarrow> err + disk" where
  "os_Create p d =
     (case map_of (nodes d) p of
        Some (Dir s t) \<Rightarrow> Inl (Err ''is a directory'')
      | _ \<Rightarrow> Inr (d\<lparr>nodes := AList.update p (File [] (os_now d)) (nodes d)\<rparr>))"

definition write_file :: "string \<Rightarrow> bytes \<Rightarrow> disk \<Rightarrow> disk" where
  "write_file p bs d = d\<lparr>nodes := AList.update p (File bs (os_now d)) (nodes d)\<rparr>"

definition os_Chtimes :: "string \<Rightarrow> gotime \<Rightarrow> disk \<Rightarrow> err + disk" where
  "os_Chtimes p mtime d =
     (case map_of (nodes d) p of
        None \<Rightarrow> Inl (Err ''no such file or directory'')
      | Some (File c t) \<Rightarrow> Inr (d\<lparr>nodes := AList.update p (File c mtime) (nodes d)\<rparr>)
      | Some (Dir s t) \<Rightarrow> Inr (d\<lparr>nodes := AList.update p (Dir s mtime) (nodes d)\<rparr>))"

text \<open>
  \<open>os.RemoveAll\<close> removes the path and everything below it; a path that does not
  exist is no error (\<open>RemoveAll\<close> returns nil).
\<close>

definition is_below :: "string \<Rightarrow> string \<Rightarrow> bool" where
  "is_below dir q = (take (length dir + 1) q = dir @ ''/'')"

definition os_RemoveAll :: "string \<Rightarrow> disk \<Rightarrow> err option \<times> disk" where
  "os_RemoveAll p d =
     (case map_of (nodes d) p of
        None \<Rightarrow> (None, d)
      | Some n \<Rightarrow> (None, d\<lparr>nodes := filter (\<lambda>(q, n). \<not> (q = p \<or> is_below p q)) (nodes d)\<rparr>))"

definition calculateMD5 :: "golib \<Rightarrow> string \<Rightarrow> disk \<Rightarrow> err + string" where
  "calculateMD5 L path d =
     (case map_of (nodes d) path of
        None \<Rightarrow> Inl (Err ''no such file or directory'')
      | Some (File c t) \<Rightarrow> Inr (md5_hex L c)
      | Some (Dir s t) \<Rightarrow> Inl (Err ''is a directory''))"

text \<open>
  \<open>OpenStream\<close> is \<open>os.Open\<close>. A directory can be opened, and the first read of it
  fails.
\<close>

definition local_OpenStream :: "local_Adapter \<Rightarrow> string \<Rightarrow> disk \<Rightarrow> (err + stream) \<times> disk" where
  "local_OpenStream a relPath d =
     (let fullPath = toSysPath a relPath
      in case map_of (nodes d) fullPath of
           None \<Rightarrow> (Inl (Err ''no such file or directory''), d)
         | Some (File c t) \<Rightarrow> (Inr (Stream c None), d)
         | Some (Dir s t) \<Rightarrow> (Inr (Stream [] (Some (Err ''is a directory''))), d))"

text \<open>
  \<open>WriteStream\<close>. A stream that fails leaves what it delivered in the file. A failure
  of \<open>os.Chtimes\<close> is logged as a warning and the method goes on.
\<close>

definition local_WriteStream ::
  "golib \<Rightarrow> local_Adapter \<Rightarrow> string \<Rightarrow> stream \<Rightarrow> gotime \<Rightarrow> disk \<Rightarrow> (err + string) \<times> disk" where
  "local_WriteStream L a relPath stream modTime d =
     (let fullPath = toSysPath a relPath;
          dir = filepath_Dir fullPath
      in case os_MkdirAll dir d of
           Inl e \<Rightarrow> (Inl (Wrap ''creating the directory failed'' e), d)
         | Inr d1 \<Rightarrow>
             (case os_Create fullPath d1 of
                Inl e \<Rightarrow> (Inl (Wrap ''creating the file failed'' e), d1)
              | Inr d2 \<Rightarrow>
                  (case stream of Stream bs fault \<Rightarrow>
                     (let d3 = write_file fullPath bs d2
                      in case fault of
                           Some e \<Rightarrow> (Inl (Wrap ''writing the data failed'' e), d3)
                         | None \<Rightarrow>
                             (let d4 = (if \<not> IsZero modTime
                                        then (case os_Chtimes fullPath modTime d3 of
                                                Inl e \<Rightarrow> d3
                                              | Inr d' \<Rightarrow> d')
                                        else d3)
                              in (calculateMD5 L fullPath d4, d4))))))"

definition local_Delete :: "local_Adapter \<Rightarrow> string \<Rightarrow> disk \<Rightarrow> err option \<times> disk" where
  "local_Delete a relPath d =
     (let fullPath = toSysPath a relPath in os_RemoveAll fullPath d)"

definition local_Stat :: "golib \<Rightarrow> local_Adapter \<Rightarrow> string \<Rightarrow> disk \<Rightarrow> (err + FileMeta) \<times> disk" where
  "local_Stat L a relPath d =
     (let fullPath = toSysPath a relPath
      in case map_of (nodes d) fullPath of
           None \<Rightarrow> (Inl (Err ''no such file or directory''), d)
         | Some (Dir s t) \<Rightarrow>
             (Inr \<lparr>RelPath = relPath, Size = s, ModTime = t, IsDir = True,
                   Hash = [], RemoteHash = []\<rparr>, d)
         | Some (File c t) \<Rightarrow>
             (case calculateMD5 L fullPath d of
                Inl e \<Rightarrow> (Inl (Wrap ''stat md5 calc failed'' e), d)
              | Inr md5Str \<Rightarrow>
                  (Inr \<lparr>RelPath = relPath, Size = of_nat (length c), ModTime = t, IsDir = False,
                        Hash = md5Str, RemoteHash = []\<rparr>, d)))"

text \<open>
  The local adapter as a \<open>FileSystem\<close>. Its \<open>ListAll\<close> and \<open>Rename\<close> are not modelled:
  no property below depends on them, and they are arguments here.
\<close>

definition local_FileSystem ::
  "golib \<Rightarrow> local_Adapter \<Rightarrow> (disk \<Rightarrow> (err + (string \<times> FileMeta) list) \<times> disk)
     \<Rightarrow> (string \<Rightarrow> string \<Rightarrow> disk \<Rightarrow> err option \<times> disk) \<Rightarrow> disk FileSystem" where
  "local_FileSystem L a listAll rename =
     \<lparr>fs_ListAll = listAll,
      fs_OpenStream = local_OpenStream a,
      fs_WriteStream = local_WriteStream L a,
      fs_Delete = local_Delete a,
      fs_Stat = local_Stat L a,
      fs_Rename = rename\<rparr>"

subsection \<open>The remote store (internal/fs/baidu)\<close>

text \<open>
  The client talks to the remote API through its \<open>http.Client\<close>. What the server does
  with a request is outside the program: \<open>http_Do method url body\<close> stands for sending
  the request and reading the whole response body, over the state \<open>'srv\<close> of the server.
\<close>

record 'srv Client =
  AccessToken :: string
  UserAgent :: string
  http_Do :: "string \<Rightarrow> string \<Rightarrow> string \<Rightarrow> 'srv \<Rightarrow> (err + bytes) \<times> 'srv"

definition PCSBaseURL :: string where
  "PCSBaseURL = ''https://pan.baidu.com/rest/2.0/xpan/file''"

text \<open>\<open>url.Values\<close> with \<open>Set\<close>, and \<open>PCSResponse.IsSuccess\<close>.\<close>

definition Values_Set :: "string \<Rightarrow> string \<Rightarrow> (string \<times> string) list \<Rightarrow> (string \<times> string) list" where
  "Values_Set k v vs = AList.update k v vs"

definition IsSuccess :: "PCSResponse \<Rightarrow> bool" where
  "IsSuccess r = (ErrNo r = 0)"

definition request ::
  "golib \<Rightarrow> 'srv Client \<Rightarrow> string \<Rightarrow> string \<Rightarrow> (string \<times> string) list \<Rightarrow> string \<Rightarrow> 'srv
     \<Rightarrow> (err + bytes) \<times> 'srv" where
  "request L c method urlStr params body srv =
     (let params = Values_Set ''access_token'' (AccessToken c) params;
          fullURL = urlStr @ ''?'' @ url_Encode L params
      in http_Do c method fullURL body srv)"

text \<open>
  \<open>Client.Delete\<close>: one POST of the file list. Its result is an error when the request
  fails, when the response is not the JSON expected and when its \<open>errno\<close> is not zero.
\<close>

definition Client_Delete :: "golib \<Rightarrow> 'srv Client \<Rightarrow> string \<Rightarrow> 'srv \<Rightarrow> err option \<times> 'srv" where
  "Client_Delete L c remotePath srv =
     (let fileList = [remotePath]
      in case json_Marshal_strings L fileList of
           Inl e \<Rightarrow> (Some (Wrap ''failed to marshal file list to JSON'' e), srv)
         | Inr fileListJSON \<Rightarrow>
             (let data = Values_Set ''filelist'' fileListJSON (Values_Set ''async'' ''2'' []);
                  params = Values_Set ''opera'' ''delete''
                             (Values_Set ''method'' ''filemanager'' [])
              in case request L c ''POST'' PCSBaseURL params (url_Encode L data) srv of
                   (Inl e, srv') \<Rightarrow> (Some e, srv')
                 | (Inr body, srv') \<Rightarrow>
                     (case json_Unmarshal_PCSResponse L body of
                        Inl e \<Rightarrow> (Some (Wrap ''failed to unmarshal response'' e), srv')
                      | Inr resp \<Rightarrow>
                          if \<not> IsSuccess resp
                          then (Some (Err (''delete operation failed: '' @ Msg resp)), srv')
                          else (None, srv'))))"

record 'srv baidu_Adapter =
  client :: "'srv Client"
  root :: string
  encryptKey :: bytes
  encryptFilenames :: bool

text \<open>\<open>crypto.EncryptName\<close>: AES-GCM under a nonce derived from the name, then base64.\<close>

definition string_bytes :: "string \<Rightarrow> bytes" where
  "string_bytes s = map of_char s"

definition EncryptName :: "golib \<Rightarrow> string \<Rightarrow> bytes \<Rightarrow> err + string" where
  "EncryptName L plainName key =
     (case aes_NewCipher key of
        Inl e \<Rightarrow> Inl e
      | Inr block \<Rightarrow>
          (let nonceHash = sha256_Sum L (string_bytes plainName);
               nonce = take 12 nonceHash;
               ciphertext = nonce @ gcm_Seal L block nonce (string_bytes plainName)
           in Inr (base64_URLEncode L ciphertext)))"

text \<open>\<open>strings.Split(s, "/")\<close>.\<close>

fun Split_slash :: "string \<Rightarrow> string list" where
  "Split_slash [] = [[]]"
| "Split_slash (c # cs) =
     (if c = CHR ''/'' then [] # Split_slash cs
      else (case Split_slash cs of
              [] \<Rightarrow> [[c]]
            | p # ps \<Rightarrow> (c # p) # ps))"

fun encryptParts :: "golib \<Rightarrow> bytes \<Rightarrow> string \<Rightarrow> string list \<Rightarrow> err + string list" where
  "encryptParts L key plainRelPath [] = Inr []"
| "encryptParts L key plainRelPath (part # parts) =
     (case EncryptName L part key of
        Inl e \<Rightarrow> Inl (Wrap (''encrypting a part of the path failed: '' @ plainRelPath) e)
      | Inr encrypted \<Rightarrow>
          (case encryptParts L key plainRelPath parts of
             Inl e \<Rightarrow> Inl e
           | Inr rest \<Rightarrow> Inr (encrypted # rest)))"

definition toAbsPath :: "golib \<Rightarrow> 'srv baidu_Adapter \<Rightarrow> string \<Rightarrow> string" where
  "toAbsPath L a relPath = path_Join L [root a, relPath]"

definition encryptPath :: "golib \<Rightarrow> 'srv baidu_Adapter \<Rightarrow> string \<Rightarrow> err + string" where
  "encryptPath L a plainRelPath =
     (if plainRelPath = [] \<or> plainRelPath = ''.'' then Inr []
      else (case encryptParts L (encryptKey a) plainRelPath (Split_slash plainRelPath) of
              Inl e \<Rightarrow> Inl e
            | Inr encryptedParts \<Rightarrow> Inr (path_Join L encryptedParts)))"

definition toEncryptedAbsPath :: "golib \<Rightarrow> 'srv baidu_Adapter \<Rightarrow> string \<Rightarrow> err + string" where
  "toEncryptedAbsPath L a plainRelPath =
     (if \<not> encryptFilenames a then Inr (toAbsPath L a plainRelPath)
      else (case encryptPath L a plainRelPath of
              Inl e \<Rightarrow> Inl e
            | Inr encryptedRel \<Rightarrow> Inr (path_Join L [root a, encryptedRel])))"

definition baidu_Delete :: "golib \<Rightarrow> 'srv baidu_Adapter \<Rightarrow> string \<Rightarrow> 'srv \<Rightarrow> err option \<times> 'srv" where
  "baidu_Delete L a relPath srv =
     (case toEncryptedAbsPath L a relPath of
        Inl e \<Rightarrow> (Some e, srv)
      | Inr absPath \<Rightarrow> Client_Delete L (client a) absPath srv)"

section \<open>The engine (internal/sync/engine.go)\<close>

text \<open>
  \<open>ConflictStrategy\<close> is an integer type with five named values; \<open>StrategyOther\<close>
  stands for any other integer, which \<open>resolveConflict\<close> meets in its default branch.
\<close>

datatype ConflictStrategy =
    StrategyRenameLocal | StrategyRenameRemote | StrategyKeepNewest
  | StrategyForceUpload | StrategyForceDownload | StrategyOther int

definition ParseConflictStrategy :: "string \<Rightarrow> ConflictStrategy" where
  "ParseConflictStrategy s =
     (if s = ''rename_remote'' then StrategyRenameRemote
      else if s = ''keep_latest'' then StrategyKeepNewest
      else if s = ''delete_remote'' then StrategyForceUpload
      else if s = ''delete_local'' then StrategyForceDownload
      else StrategyRenameLocal)"

text \<open>
  \<open>EngineOptions\<close>, over the state types of the two file systems. \<open>StateDB\<close>, a pointer
  to the database, is not a field here: the database is part of the world below.
\<close>

record ('l, 'r) EngineOptions =
  LocalFS :: "'l FileSystem"
  RemoteFS :: "'r FileSystem"
  EncryptKey :: bytes
  EncryptFilenames :: bool
  MaxWorkers :: int
  ConflictStrategy :: ConflictStrategy

definition NewEngine :: "('l, 'r) EngineOptions \<Rightarrow> ('l, 'r) EngineOptions" where
  "NewEngine opts = (if MaxWorkers opts \<le> 0 then opts\<lparr>MaxWorkers := 3\<rparr> else opts)"

text \<open>
  Everything a cycle reads and writes: the two file systems, the snapshot database,
  \<open>rand.Reader\<close> and the clock behind \<open>time.Now\<close>. Every function of the engine takes
  the world and returns its Go result with the world it leaves; the steps of one task
  run one after the other, with nothing else touching the world in between.
\<close>

record ('l, 'r) world =
  lfs :: 'l
  rfs :: 'r
  sdb :: bolt
  rand_Reader :: stream
  time_Now :: gotime

definition doUpload ::
  "golib \<Rightarrow> ('l, 'r) EngineOptions \<Rightarrow> string \<Rightarrow> ('l, 'r) world
     \<Rightarrow> err option \<times> ('l, 'r) world" where
  "doUpload L opts path w =
     (case fs_OpenStream (LocalFS opts) path (lfs w) of
        (Inl e, l1) \<Rightarrow> (Some e, w\<lparr>lfs := l1\<rparr>)
      | (Inr reader, l1) \<Rightarrow>
          (case (if length (EncryptKey opts) > 0
                 then NewEncryptReader L reader (EncryptKey opts) (rand_Reader w)
                 else Inr (reader, rand_Reader w)) of
             Inl e \<Rightarrow> (Some (Wrap ''crypto init failed'' e), w\<lparr>lfs := l1\<rparr>)
           | Inr (uploadStream, rnd) \<Rightarrow>
               (case fs_WriteStream (RemoteFS opts) path uploadStream (time_Now w) (rfs w) of
                  (Inl e, r1) \<Rightarrow> (Some e, w\<lparr>lfs := l1, rfs := r1, rand_Reader := rnd\<rparr>)
                | (Inr cloudMD5, r1) \<Rightarrow>
                    (case fs_Stat (LocalFS opts) path l1 of
                       (Inl e, l2) \<Rightarrow>
                         (Some (Wrap ''stat local failed after upload'' e),
                          w\<lparr>lfs := l2, rfs := r1, rand_Reader := rnd\<rparr>)
                     | (Inr stat, l2) \<Rightarrow>
                         (let newState =
                                \<lparr>st_RelPath = path,
                                 FileSize = Size stat,
                                 st_ModTime = UnixNano (ModTime stat),
                                 LocalHash = Hash stat,
                                 st_RemoteHash = cloudMD5,
                                 st_IsDir = False,
                                 LastSyncTime = word_of_int (time_Now w div 1000000000)\<rparr>
                          in case DB_Put L (time_Now w) newState (sdb w) of
                               (res, db) \<Rightarrow>
                                 (res, w\<lparr>lfs := l2, rfs := r1, rand_Reader := rnd,
                                         sdb := db\<rparr>))))))"

definition doDownload ::
  "golib \<Rightarrow> ('l, 'r) EngineOptions \<Rightarrow> string \<Rightarrow> ('l, 'r) world
     \<Rightarrow> err option \<times> ('l, 'r) world" where
  "doDownload L opts path w =
     (case fs_OpenStream (RemoteFS opts) path (rfs w) of
        (Inl e, r1) \<Rightarrow> (Some e, w\<lparr>rfs := r1\<rparr>)
      | (Inr reader, r1) \<Rightarrow>
          (case (if length (EncryptKey opts) > 0
                 then NewDecryptReader L reader (EncryptKey opts)
                 else Inr reader) of
             Inl e \<Rightarrow> (Some (Wrap ''crypto init failed'' e), w\<lparr>rfs := r1\<rparr>)
           | Inr downStream \<Rightarrow>
               (case fs_Stat (RemoteFS opts) path r1 of
                  (Inl e, r2) \<Rightarrow> (Some e, w\<lparr>rfs := r2\<rparr>)
                | (Inr remoteMeta, r2) \<Rightarrow>
                    (case fs_WriteStream (LocalFS opts) path downStream (ModTime remoteMeta)
                            (lfs w) of
                       (Inl e, l1) \<Rightarrow> (Some e, w\<lparr>lfs := l1, rfs := r2\<rparr>)
                     | (Inr localMD5, l1) \<Rightarrow>
                         (case fs_Stat (LocalFS opts) path l1 of
                            (Inl e, l2) \<Rightarrow>
                              (Some (Wrap ''stat local after download failed'' e),
                               w\<lparr>lfs := l2, rfs := r2\<rparr>)
                          | (Inr localStat, l2) \<Rightarrow>
                              (let newState =
                                     \<lparr>st_RelPath = path,
                                      FileSize = Size localStat,
                                      st_ModTime = UnixNano (ModTime localStat),
                                      LocalHash = localMD5,
                                      st_RemoteHash = RemoteHash remoteMeta,
                                      st_IsDir = False,
                                      LastSyncTime = word_of_int (time_Now w div 1000000000)\<rparr>
                               in case DB_Put L (time_Now w) newState (sdb w) of
                                    (res, db) \<Rightarrow>
                                      (res, w\<lparr>lfs := l2, rfs := r2, sdb := db\<rparr>)))))))"

text \<open>\<open>t.After(u)\<close> of package \<open>time\<close>.\<close>

definition After :: "gotime \<Rightarrow> gotime \<Rightarrow> bool" where
  "After t u = (u < t)"

definition resolveConflict ::
  "golib \<Rightarrow> ('l, 'r) EngineOptions \<Rightarrow> string \<Rightarrow> ('l, 'r) world
     \<Rightarrow> err option \<times> ('l, 'r) world" where
  "resolveConflict L opts path w =
     (case ConflictStrategy opts of
        StrategyRenameLocal \<Rightarrow>
          (let newName = path @ ''.local''
           in case fs_Rename (LocalFS opts) path newName (lfs w) of
                (Some e, l1) \<Rightarrow> (Some (Wrap ''rename local failed'' e), w\<lparr>lfs := l1\<rparr>)
              | (None, l1) \<Rightarrow> doDownload L opts path (w\<lparr>lfs := l1\<rparr>))
      | StrategyRenameRemote \<Rightarrow>
          (let newName = path @ ''.remote''
           in case fs_Rename (RemoteFS opts) path newName (rfs w) of
                (Some e, r1) \<Rightarrow> (Some (Wrap ''rename remote failed'' e), w\<lparr>rfs := r1\<rparr>)
              | (None, r1) \<Rightarrow> doUpload L opts path (w\<lparr>rfs := r1\<rparr>))
      | StrategyKeepNewest \<Rightarrow>
          (case fs_Stat (LocalFS opts) path (lfs w) of
             (Inl e, l1) \<Rightarrow> (Some (Wrap ''stat local failed'' e), w\<lparr>lfs := l1\<rparr>)
           | (Inr localMeta, l1) \<Rightarrow>
               (case fs_Stat (RemoteFS opts) path (rfs w) of
                  (Inl e, r1) \<Rightarrow> (Some (Wrap ''stat remote failed'' e), w\<lparr>lfs := l1, rfs := r1\<rparr>)
                | (Inr remoteMeta, r1) \<Rightarrow>
                    if After (ModTime localMeta) (ModTime remoteMeta)
                    then doUpload L opts path (w\<lparr>lfs := l1, rfs := r1\<rparr>)
                    else doDownload L opts path (w\<lparr>lfs := l1, rfs := r1\<rparr>)))
      | StrategyForceUpload \<Rightarrow>
          (case fs_Delete (RemoteFS opts) path (rfs w) of
             (Some e, r1) \<Rightarrow> (Some (Wrap ''delete remote failed'' e), w\<lparr>rfs := r1\<rparr>)
           | (None, r1) \<Rightarrow> doUpload L opts path (w\<lparr>rfs := r1\<rparr>))
      | StrategyForceDownload \<Rightarrow>
          (case fs_Delete (LocalFS opts) path (lfs w) of
             (Some e, l1) \<Rightarrow> (Some (Wrap ''delete local failed'' e), w\<lparr>lfs := l1\<rparr>)
           | (None, l1) \<Rightarrow> doDownload L opts path (w\<lparr>lfs := l1\<rparr>))
      | StrategyOther n \<Rightarrow> (None, w))"

definition processTask ::
  "golib \<Rightarrow> ('l, 'r) EngineOptions \<Rightarrow> Task \<Rightarrow> ('l, 'r) world
     \<Rightarrow> err option \<times> ('l, 'r) world" where
  "processTask L opts t w =
     (case Op t of
        OpUpload \<Rightarrow> doUpload L opts (t_RelPath t) w
      | OpDownload \<Rightarrow> doDownload L opts (t_RelPath t) w
      | OpDeleteRemote \<Rightarrow>
          (case fs_Delete (RemoteFS opts) (t_RelPath t) (rfs w) of
             (Some e, r1) \<Rightarrow> (Some e, w\<lparr>rfs := r1\<rparr>)
           | (None, r1) \<Rightarrow>
               (case DB_Delete (t_RelPath t) (sdb w) of
                  (res, db) \<Rightarrow> (res, w\<lparr>rfs := r1, sdb := db\<rparr>)))
      | OpDeleteLocal \<Rightarrow>
          (case fs_Delete (LocalFS opts) (t_RelPath t) (lfs w) of
             (Some e, l1) \<Rightarrow> (Some e, w\<lparr>lfs := l1\<rparr>)
           | (None, l1) \<Rightarrow>
               (case DB_Delete (t_RelPath t) (sdb w) of
                  (res, db) \<Rightarrow> (res, w\<lparr>lfs := l1, sdb := db\<rparr>)))
      | OpConflict \<Rightarrow> resolveConflict L opts (t_RelPath t) w
      | OpIgnore \<Rightarrow> (None, w))"

text \<open>
  \<open>rebuildIndex\<close> returns nothing: an error of \<open>StateDB.Put\<close> is written to the log
  and goes no further.
\<close>

definition rebuildIndex ::
  "golib \<Rightarrow> string \<Rightarrow> FileMeta \<Rightarrow> FileMeta \<Rightarrow> ('l, 'r) world \<Rightarrow> ('l, 'r) world" where
  "rebuildIndex L path l r w =
     (let newState =
            \<lparr>st_RelPath = path,
             FileSize = Size l,
             st_ModTime = UnixNano (ModTime l),
             LocalHash = Hash l,
             st_RemoteHash = Hash l,
             st_IsDir = False,
             LastSyncTime = word_of_int (time_Now w div 1000000000)\<rparr>
      in case DB_Put L (time_Now w) newState (sdb w) of
           (Some e, db) \<Rightarrow> w\<lparr>sdb := db\<rparr>
         | (None, db) \<Rightarrow> w\<lparr>sdb := db\<rparr>)"

text \<open>
  The loop of \<open>Run\<close> over the paths: a task for every path that \<open>compare\<close> does not
  ignore, an index rebuild on the spot for an ignored path without snapshot entry and
  with both sides present.
\<close>

fun planTasks ::
  "golib \<Rightarrow> ('l, 'r) EngineOptions \<Rightarrow> (string \<times> FileMeta) list \<Rightarrow> (string \<times> FileMeta) list
     \<Rightarrow> (string \<times> FileState) list \<Rightarrow> string list \<Rightarrow> ('l, 'r) world
     \<Rightarrow> Task list \<times> ('l, 'r) world" where
  "planTasks L opts localMap remoteMap baseMap [] w = ([], w)"
| "planTasks L opts localMap remoteMap baseMap (path # paths) w =
     (let l = map_of localMap path;
          r = map_of remoteMap path;
          b = map_of baseMap path;
          op = compare (EncryptKey opts) path l r b
      in if op \<noteq> OpIgnore
         then (case planTasks L opts localMap remoteMap baseMap paths w of
                 (tasks, w') \<Rightarrow> (\<lparr>Op = op, t_RelPath = path, Reason = []\<rparr> # tasks, w'))
         else if b = None \<and> l \<noteq> None \<and> r \<noteq> None
         then planTasks L opts localMap remoteMap baseMap paths
                (rebuildIndex L path (the l) (the r) w)
         else planTasks L opts localMap remoteMap baseMap paths w)"

text \<open>
  The worker pool. The queue is filled before the workers start; a worker takes the
  next task, returns when it finds the context cancelled, and otherwise processes the
  task and sends its error, if any, to the error channel. The model runs the tasks in
  the order of the queue, one at a time; the interleaving of \<open>MaxWorkers\<close> workers is not
  modelled. The context is the number of tasks that can still be started before it is
  cancelled, \<open>None\<close> for a context that is never cancelled.
\<close>

fun worker ::
  "golib \<Rightarrow> ('l, 'r) EngineOptions \<Rightarrow> nat option \<Rightarrow> Task list \<Rightarrow> ('l, 'r) world
     \<Rightarrow> err list \<times> ('l, 'r) world" where
  "worker L opts ctx [] w = ([], w)"
| "worker L opts ctx (task # taskChan) w =
     (if ctx = Some 0 then ([], w)
      else (case processTask L opts task w of
              (res, w1) \<Rightarrow>
                (case worker L opts (map_option (\<lambda>n. n - 1) ctx) taskChan w1 of
                   (errs, w2) \<Rightarrow>
                     ((case res of None \<Rightarrow> [] | Some e \<Rightarrow> [e]) @ errs, w2))))"

text \<open>
  \<open>Run\<close>. The three scans run in an \<open>errgroup\<close>, whose \<open>Wait\<close> returns the first error
  and waits for all three; here they run in the order local, remote, database. The
  paths are the keys of the three maps; Go visits the keys of a map in an order of its
  choice, and \<open>range_order\<close> is that choice.
\<close>

definition Run ::
  "golib \<Rightarrow> ('l, 'r) EngineOptions \<Rightarrow> nat option \<Rightarrow> (string list \<Rightarrow> string list)
     \<Rightarrow> ('l, 'r) world \<Rightarrow> err option \<times> ('l, 'r) world" where
  "Run L opts ctx range_order w =
     (case fs_ListAll (LocalFS opts) (lfs w) of (localRes, l1) \<Rightarrow>
      case fs_ListAll (RemoteFS opts) (rfs w) of (remoteRes, r1) \<Rightarrow>
      case DB_ListAll L (sdb w) of (baseRes, db1) \<Rightarrow>
        (let w1 = w\<lparr>lfs := l1, rfs := r1, sdb := db1\<rparr>
         in case localRes of
              Inl e \<Rightarrow> (Some (Wrap ''scan local failed'' e), w1)
            | Inr localMap \<Rightarrow>
           (case remoteRes of
              Inl e \<Rightarrow> (Some (Wrap ''scan remote failed'' e), w1)
            | Inr remoteMap \<Rightarrow>
           (case baseRes of
              Inl e \<Rightarrow> (Some (Wrap ''scan db failed'' e), w1)
            | Inr baseMap \<Rightarrow>
                (let allPaths = range_order
                       (remdups (map fst localMap @ map fst remoteMap @ map fst baseMap))
                 in case planTasks L opts localMap remoteMap baseMap allPaths w1 of
                      (tasks, w2) \<Rightarrow>
                        if length tasks = 0 then (None, w2)
                        else (case (if MaxWorkers opts \<le> 0 then ([], w2)
                                    else worker L opts ctx tasks w2) of
                                (errs, w3) \<Rightarrow>
                                  if length errs > 0
                                  then (Some (Errs ''task(s) failed'' errs), w3)
                                  else (None, w3)))))))"

section \<open>Instances for running the model\<close>

text \<open>
  To run the model on an example the parameters need values. \<open>example_lib\<close> puts
  simple functions in the place of the library: they have the types of the real ones
  and none of their strength. \<open>mem_FileSystem\<close> is a \<open>FileSystem\<close> kept in memory, a
  list of paths with their contents, that plays the remote store (or either side)
  where only the interface matters; its \<open>Delete\<close> of a missing path is an error.
\<close>

definition zero_FileState :: FileState where
  "zero_FileState =
     \<lparr>st_RelPath = [], FileSize = 0, st_ModTime = 0, LocalHash = [], st_RemoteHash = [],
      st_IsDir = False, LastSyncTime = 0\<rparr>"

definition example_lib :: golib where
  "example_lib =
     \<lparr>aes_Encrypt = (\<lambda>key blk. blk + 1),
      md5_hex = (\<lambda>bs. replicate (length bs) (CHR ''m'')),
      json_Marshal = (\<lambda>s. Inr (123 # replicate (length (LocalHash s)) 34 @ [125])),
      json_Unmarshal =
        (\<lambda>v. case v of
               [] \<Rightarrow> Inl (Err ''unexpected end of JSON input'')
             | b # bs \<Rightarrow> if b = 123 then Inr zero_FileState
                         else Inl (Err ''invalid character'')),
      json_Marshal_strings = (\<lambda>xs. Inr (concat xs)),
      json_Unmarshal_PCSResponse =
        (\<lambda>body. case body of
                  [] \<Rightarrow> Inl (Err ''unexpected end of JSON input'')
                | b # bs \<Rightarrow> Inr \<lparr>ErrNo = uint b, Msg = []\<rparr>),
      url_Encode = (\<lambda>vs. concat (map (\<lambda>(k, v). k @ ''='' @ v @ ''&'') vs)),
      path_Join = (\<lambda>ps. concat (map (\<lambda>p. ''/'' @ p) ps)),
      sha256_Sum = (\<lambda>bs. replicate 32 0),
      gcm_Seal = (\<lambda>key nonce plaintext. plaintext),
      base64_URLEncode = (\<lambda>bs. replicate (length bs) (CHR ''A''))\<rparr>"

definition mem_meta :: "string \<Rightarrow> bytes \<Rightarrow> FileMeta" where
  "mem_meta p c =
     \<lparr>RelPath = p, Size = of_nat (length c), ModTime = 0, IsDir = False, Hash = [],
      RemoteHash = replicate (length c) (CHR ''m'')\<rparr>"

definition mem_FileSystem :: "(string \<times> bytes) list FileSystem" where
  "mem_FileSystem =
     \<lparr>fs_ListAll = (\<lambda>s. (Inr (map (\<lambda>(p, c). (p, mem_meta p c)) s), s)),
      fs_OpenStream =
        (\<lambda>p s. case map_of s p of
                 None \<Rightarrow> (Inl (Err ''file not found''), s)
               | Some c \<Rightarrow> (Inr (Stream c None), s)),
      fs_WriteStream =
        (\<lambda>p stream t s. case stream of Stream bs fault \<Rightarrow>
           (case fault of
              Some e \<Rightarrow> (Inl e, s)
            | None \<Rightarrow> (Inr (replicate (length bs) (CHR ''m'')), AList.update p bs s))),
      fs_Delete =
        (\<lambda>p s. case map_of s p of
                 None \<Rightarrow> (Some (Err ''file not found''), s)
               | Some c \<Rightarrow> (None, AList.delete p s)),
      fs_Stat =
        (\<lambda>p s. case map_of s p of
                 None \<Rightarrow> (Inl (Err ''file not found''), s)
               | Some c \<Rightarrow> (Inr (mem_meta p c), s)),
      fs_Rename =
        (\<lambda>old new s. case map_of s old of
                 None \<Rightarrow> (Some (Err ''file not found''), s)
               | Some c \<Rightarrow> (None, AList.update new c (AList.delete old s)))\<rparr>"

text \<open>
  Two engines for the examples: one between the local disk under \<open>/data\<close> and the
  store in memory, one between two stores in memory; neither encrypts.
\<close>

definition example_opts :: "(disk, (string \<times> bytes) list) EngineOptions" where
  "example_opts =
     \<lparr>LocalFS = local_FileSystem example_lib \<lparr>rootDir = ''/data''\<rparr>
                  (\<lambda>d. (Inr [], d)) (\<lambda>old new d. (None, d)),
      RemoteFS = mem_FileSystem,
      EncryptKey = [],
      EncryptFilenames = False,
      MaxWorkers = 3,
      ConflictStrategy = StrategyRenameLocal\<rparr>"

definition example_world :: "(disk, (string \<times> bytes) list) world" where
  "example_world =
     \<lparr>lfs = \<lparr>nodes = [(''/data'', Dir 4096 5), (''/data/a.txt'', File [1, 2, 3] 5)], os_now = 9\<rparr>,
      rfs = [(''b.txt'', [4, 5])],
      sdb = \<lparr>kv = [], tx_faults = []\<rparr>,
      rand_Reader = Stream [] None,
      time_Now = 10\<rparr>"

definition mem_opts :: "((string \<times> bytes) list, (string \<times> bytes) list) EngineOptions" where
  "mem_opts =
     \<lparr>LocalFS = mem_FileSystem,
      RemoteFS = mem_FileSystem,
      EncryptKey = [],
      EncryptFilenames = False,
      MaxWorkers = 3,
      ConflictStrategy = StrategyRenameLocal\<rparr>"

definition mem_world ::
  "(string \<times> bytes) list \<Rightarrow> (string \<times> bytes) list \<Rightarrow> bolt
     \<Rightarrow> ((string \<times> bytes) list, (string \<times> bytes) list) world" where
  "mem_world l r db = \<lparr>lfs = l, rfs = r, sdb = db, rand_Reader = Stream [] None, time_Now = 10\<rparr>"

section \<open>Properties of the diff decider\<close>

lemma sint_plus16:
  fixes x :: int64
  shows "sint (x + 16) = (if sint x + 16 < 2 ^ 63 then sint x + 16 else sint x + 16 - 2 ^ 64)"
proof -
  have b: "- (2 ^ 63) \<le> sint x" "sint x < 2 ^ 63"
    using sint_ge [of x] sint_lt [of x] by simp_all
  have "sint (x + 16) = signed_take_bit 63 (sint x + 16)"
    by (simp add: sint_word_ariths)
  also have "\<dots> = (sint x + 16 + 2 ^ 63) mod 2 ^ 64 - 2 ^ 63"
    by (simp add: signed_take_bit_eq_take_bit_shift take_bit_eq_mod)
  also have "\<dots> = (if sint x + 16 < 2 ^ 63 then sint x + 16 else sint x + 16 - 2 ^ 64)"
  proof (cases "sint x + 16 < 2 ^ 63")
    case True
    then have "(sint x + 16 + 2 ^ 63) mod 2 ^ 64 = sint x + 16 + 2 ^ 63"
      using b by (intro mod_pos_pos_trivial) simp_all
    then show ?thesis using True by simp
  next
    case False
    then have "(sint x + 16 + 2 ^ 63) mod 2 ^ 64 = sint x + 16 + 2 ^ 63 - 2 ^ 64"
      using b by (intro int_mod_pos_eq [where q = 1]) simp_all
    then show ?thesis using False by simp
  qed
  finally show ?thesis .
qed

text \<open>
  On sizes that are not negative, the wrapping \<open>int64\<close> addition of the overhead agrees
  with addition on the integers: where \<open>x + 16\<close> wraps, it is negative and no size equals it.
\<close>

lemma size_plus_overhead_iff:
  fixes x y :: int64
  assumes "0 \<le> sint x" and "0 \<le> sint y"
  shows "(y = x + 16) = (sint y = sint x + 16)"
proof
  assume "sint y = sint x + 16"
  then have "word_of_int (sint y) = (word_of_int (sint x + 16) :: int64)" by simp
  then show "y = x + 16" by simp
next
  assume e: "y = x + 16"
  have b: "sint x < 2 ^ 63" using sint_lt [of x] by simp
  show "sint y = sint x + 16"
  proof (cases "sint x + 16 < 2 ^ 63")
    case True
    then show ?thesis using e by (simp add: sint_plus16)
  next
    case False
    then have "sint y = sint x + 16 - 2 ^ 64" using e by (simp add: sint_plus16)
    then have "sint y < 0" using b by simp
    then show ?thesis using assms(2) by simp
  qed
qed

text \<open>
  Claim C1. When the local file, the remote file and the snapshot entry are all present
  and neither side is a directory, \<open>compare\<close> answers by the two predicates alone:
  Ignore when neither side changed against the base, Upload when only the local side
  changed, Download when only the remote side changed, Conflict when both changed.
  A side has changed when \<open>isLocalSameAsBase\<close> respectively \<open>isRemoteSameAsBase\<close> is false.
\<close>

theorem compare_three_way:
  assumes "\<not> IsDir l" and "\<not> IsDir r"
  shows "compare key p (Some l) (Some r) (Some b) =
    (let localChanged = \<not> isLocalSameAsBase l b;
         remoteChanged = \<not> isRemoteSameAsBase r b (length key > 0)
     in if \<not> localChanged \<and> \<not> remoteChanged then OpIgnore
        else if localChanged \<and> \<not> remoteChanged then OpUpload
        else if \<not> localChanged \<and> remoteChanged then OpDownload
        else OpConflict)"
  using assms by (simp add: compare_def)

theorem compare_three_way_witness:
  "compare [] ''a.txt''
     (Some \<lparr>RelPath = ''a.txt'', Size = 120, ModTime = 1700000000000000000, IsDir = False,
            Hash = [], RemoteHash = []\<rparr>)
     (Some \<lparr>RelPath = ''a.txt'', Size = 100, ModTime = 0, IsDir = False,
            Hash = [], RemoteHash = ''h1''\<rparr>)
     (Some \<lparr>st_RelPath = ''a.txt'', FileSize = 100, st_ModTime = 1700000000000000000,
            LocalHash = ''h0'', st_RemoteHash = ''h1'', st_IsDir = False, LastSyncTime = 0\<rparr>)
   = OpUpload"
  using compare_three_way [of
     "\<lparr>RelPath = ''a.txt'', Size = 120, ModTime = 1700000000000000000, IsDir = False,
            Hash = [], RemoteHash = []\<rparr>"
     "\<lparr>RelPath = ''a.txt'', Size = 100, ModTime = 0, IsDir = False,
            Hash = [], RemoteHash = ''h1''\<rparr>"
     "[]" "''a.txt''"
     "\<lparr>st_RelPath = ''a.txt'', FileSize = 100, st_ModTime = 1700000000000000000,
            LocalHash = ''h0'', st_RemoteHash = ''h1'', st_IsDir = False, LastSyncTime = 0\<rparr>"]
  by (simp add: isLocalSameAsBase_def isRemoteSameAsBase_def)

text \<open>
  Claim C2. With no snapshot entry, both sides present and neither a directory,
  \<open>compare\<close> returns Ignore when the fuzzy size match holds and Conflict when it fails.
  The match is \<open>remote.size == local.size + 16\<close> in \<open>int64\<close> arithmetic when a key is
  configured and \<open>remote.size == local.size\<close> otherwise; for sizes that are not negative
  (every size a scan reports) that is the same equation on the integers.
\<close>

theorem compare_base_absent_fuzzy:
  assumes "\<not> IsDir l" and "\<not> IsDir r"
  shows "compare key p (Some l) (Some r) None =
           (if Size r = (if length key > 0 then Size l + 16 else Size l)
            then OpIgnore else OpConflict)
         \<and> (0 \<le> sint (Size l) \<and> 0 \<le> sint (Size r) \<longrightarrow>
              compare key p (Some l) (Some r) None =
                (if sint (Size r) = (if length key > 0 then sint (Size l) + 16 else sint (Size l))
                 then OpIgnore else OpConflict))"
proof -
  have c: "compare key p (Some l) (Some r) None =
           (if Size r = (if length key > 0 then Size l + 16 else Size l)
            then OpIgnore else OpConflict)"
    using assms by (simp add: compare_def isSameFileFuzzy_def EncryptedOverhead_def)
  have "compare key p (Some l) (Some r) None =
          (if sint (Size r) = (if length key > 0 then sint (Size l) + 16 else sint (Size l))
           then OpIgnore else OpConflict)"
    if nn: "0 \<le> sint (Size l)" "0 \<le> sint (Size r)"
  proof (cases "length key > 0")
    case True
    then show ?thesis using c size_plus_overhead_iff [OF nn] by simp
  next
    case False
    have "(Size r = Size l) = (sint (Size r) = sint (Size l))"
      by (auto intro: signed_word_eqI)
    then show ?thesis using False c by simp
  qed
  with c show ?thesis by blast
qed

theorem compare_base_absent_fuzzy_witness:
  "compare [1, 2, 3] ''d.bin''
     (Some \<lparr>RelPath = ''d.bin'', Size = 1024, ModTime = 0, IsDir = False,
            Hash = [], RemoteHash = []\<rparr>)
     (Some \<lparr>RelPath = ''d.bin'', Size = 1040, ModTime = 0, IsDir = False,
            Hash = [], RemoteHash = ''h''\<rparr>)
     None = OpIgnore"
  using compare_base_absent_fuzzy [of
     "\<lparr>RelPath = ''d.bin'', Size = 1024, ModTime = 0, IsDir = False,
            Hash = [], RemoteHash = []\<rparr>"
     "\<lparr>RelPath = ''d.bin'', Size = 1040, ModTime = 0, IsDir = False,
            Hash = [], RemoteHash = ''h''\<rparr>"
     "[1, 2, 3]" "''d.bin''"]
  by simp

text \<open>
  What \<open>isLocalSameAsBase\<close> computes, on the integers. \<open>Sub\<close> saturates, and the
  negation of the minimum duration is the minimum duration again, so a local time that is
  \<open>2 ^ 63\<close> nanoseconds (about 292 years) or more before the snapshot's passes the
  two-second test.
\<close>

lemma isLocalSameAsBase_int:
  "isLocalSameAsBase l b =
     (if Hash l \<noteq> [] \<and> LocalHash b \<noteq> [] then Hash l = LocalHash b
      else Size l = FileSize b \<and>
           (\<bar>ModTime l - sint (st_ModTime b)\<bar> < 2000000000 \<or>
            ModTime l - sint (st_ModTime b) \<le> - (2 ^ 63)))"
proof -
  define d where "d = ModTime l - sint (st_ModTime b)"
  have neg: "sint (- (word_of_int d :: int64)) = - d"
    if "- (2 ^ 63) < d" "d < 0" for d :: int
  proof -
    have "- (2 ^ 63) \<le> d" "d < 2 ^ 63" using that by simp_all
    then have "sint (word_of_int d :: int64) = d"
      by (simp add: sint_sbintrunc' signed_take_bit_int_eq_self)
    then have "sint (- (word_of_int d :: int64)) = signed_take_bit 63 (- d)"
      by (simp add: sint_word_ariths)
    also have "\<dots> = - d"
      using that by (intro signed_take_bit_int_eq_self) simp_all
    finally show ?thesis .
  qed
  have pos: "sint (word_of_int d :: int64) = d"
    if "- (2 ^ 63) \<le> d" "d \<le> 2 ^ 63 - 1" for d :: int
    using that by (simp add: sint_sbintrunc' signed_take_bit_int_eq_self)
  have "(let diff = Sub (ModTime l) (Unix0 (st_ModTime b));
             diff = (if diff <s 0 then - diff else diff)
         in diff <s 2 * Second) = (\<bar>d\<bar> < 2000000000 \<or> d \<le> - (2 ^ 63))"
  proof (cases "d \<le> - (2 ^ 63)")
    case True
    have "Sub (ModTime l) (Unix0 (st_ModTime b)) = minDuration"
    proof (cases "d = - (2 ^ 63)")
      case True
      then show ?thesis by (simp add: Sub_def Unix0_def d_def [symmetric] minDuration_def)
    next
      case False
      then have "d < - (2 ^ 63)" using True by simp
      then show ?thesis by (simp add: Sub_def Unix0_def d_def [symmetric])
    qed
    then show ?thesis using True
      by (simp add: Let_def minDuration_def Second_def word_sless_alt)
  next
    case False
    note lo = this
    show ?thesis
    proof (cases "2 ^ 63 - 1 < d")
      case True
      then show ?thesis using lo
        by (simp add: Sub_def Unix0_def d_def [symmetric] Let_def maxDuration_def Second_def
            word_sless_alt)
    next
      case False
      then have r: "- (2 ^ 63) < d" "- (2 ^ 63) \<le> d" "d \<le> 2 ^ 63 - 1" using lo by simp_all
      have s: "Sub (ModTime l) (Unix0 (st_ModTime b)) = word_of_int d"
        using r by (simp add: Sub_def Unix0_def d_def [symmetric])
      show ?thesis
      proof (cases "d < 0")
        case True
        then show ?thesis using r neg [OF r(1) True] pos [OF r(2,3)]
          by (simp add: s Let_def Second_def word_sless_alt)
      next
        case False
        then show ?thesis using r pos [OF r(2,3)]
          by (simp add: s Let_def Second_def word_sless_alt)
      qed
    qed
  qed
  then show ?thesis
    by (simp add: isLocalSameAsBase_def d_def Let_def)
qed

text \<open>
  Claim C4. The claim holds where both MD5 values are filled (the predicate is their
  equality) and fails in the fallback: the local file below has the snapshot's size and
  a modification time of 1601-01-01, some 422 years before the snapshot's
  (2023-11-14), and the predicate still answers true.
\<close>

theorem isLocalSameAsBase_far_past:
  "isLocalSameAsBase
     \<lparr>RelPath = ''a.txt'', Size = 100, ModTime = - 11644473600 * 1000000000, IsDir = False,
      Hash = [], RemoteHash = []\<rparr>
     \<lparr>st_RelPath = ''a.txt'', FileSize = 100, st_ModTime = 1700000000000000000,
      LocalHash = ''9e107d9d372bb6826bd81d3542a419d6'', st_RemoteHash = [], st_IsDir = False,
      LastSyncTime = 0\<rparr>
   \<and> \<not> \<bar>(- 11644473600 * 1000000000) - sint (1700000000000000000 :: int64)\<bar> < 2 * 1000000000"
  by (simp add: isLocalSameAsBase_def Sub_def Unix0_def minDuration_def maxDuration_def
      Second_def word_sless_alt)

section \<open>Properties of the stream cipher\<close>

lemma length_XORKeyStream: "length (XORKeyStream L key iv src) = length src"
  by (simp add: XORKeyStream_def)

lemma XORKeyStream_involution: "XORKeyStream L key iv (XORKeyStream L key iv src) = src"
  by (rule nth_equalityI) (simp_all add: XORKeyStream_def xor.assoc)

text \<open>
  Claim C3. For every plaintext \<open>P\<close> and every key \<open>K\<close> that AES accepts (16, 24 or 32
  bytes), with \<open>rand.Reader\<close> delivering the 16 bytes \<open>iv\<close>: the encrypting reader
  succeeds and delivers the IV followed by the CTR-encrypted body, 16 bytes more than
  \<open>P\<close>, and the decrypting reader under the same key turns that output back into \<open>P\<close>.
\<close>

theorem encrypt_decrypt_roundtrip:
  assumes "length K = 16 \<or> length K = 24 \<or> length K = 32"
      and "ReadFull 16 rnd = Inr (iv, rnd')"
  shows "NewEncryptReader L (Stream P None) K rnd
           = Inr (Stream (iv @ XORKeyStream L K iv P) None, rnd')
       \<and> length (iv @ XORKeyStream L K iv P) = length P + 16
       \<and> NewDecryptReader L (Stream (iv @ XORKeyStream L K iv P) None) K = Inr (Stream P None)"
proof -
  have iv: "length iv = 16"
    using assms(2) by (auto simp: ReadFull_def split: stream.splits if_splits option.splits)
  have k: "aes_NewCipher K = Inr K"
    using assms(1) by (auto simp: aes_NewCipher_def)
  have e: "NewEncryptReader L (Stream P None) K rnd
           = Inr (Stream (iv @ XORKeyStream L K iv P) None, rnd')"
    using assms(2) by (simp add: NewEncryptReader_def k MultiReader_def StreamReader_def)
  have r: "ReadFull 16 (Stream (iv @ XORKeyStream L K iv P) None)
           = Inr (iv, Stream (XORKeyStream L K iv P) None)"
    using iv by (simp add: ReadFull_def)
  have d: "NewDecryptReader L (Stream (iv @ XORKeyStream L K iv P) None) K = Inr (Stream P None)"
    by (simp add: NewDecryptReader_def k r StreamReader_def XORKeyStream_involution)
  show ?thesis using e d iv by (simp add: length_XORKeyStream)
qed

theorem encrypt_decrypt_roundtrip_witness:
  "NewEncryptReader example_lib (Stream [1, 2, 3] None) (replicate 32 1)
       (Stream (replicate 16 7) None)
     = Inr (Stream (replicate 16 7
                    @ XORKeyStream example_lib (replicate 32 1) (replicate 16 7) [1, 2, 3]) None,
            Stream [] None)
   \<and> length (replicate 16 (7 :: 8 word)
             @ XORKeyStream example_lib (replicate 32 1) (replicate 16 7) [1, 2, 3]) = 19
   \<and> NewDecryptReader example_lib
        (Stream (replicate 16 7
                 @ XORKeyStream example_lib (replicate 32 1) (replicate 16 7) [1, 2, 3]) None)
        (replicate 32 1)
     = Inr (Stream [1, 2, 3] None)"
  using encrypt_decrypt_roundtrip [where K = "replicate 32 1" and rnd = "Stream (replicate 16 7) None"
      and iv = "replicate 16 7" and rnd' = "Stream [] None" and L = example_lib
      and P = "[1, 2, 3]"]
  by (simp add: ReadFull_def)

section \<open>Properties of the adapters, the store and the engine\<close>

lemmas engine_defs = processTask_def doUpload_def doDownload_def rebuildIndex_def Run_def
  DB_Put_def DB_Delete_def DB_ListAll_def Update_def begin_tx_def Bucket_Put_def Bucket_Delete_def
  compare_def isSameFileFuzzy_def EncryptedOverhead_def

lemmas example_defs = example_lib_def mem_FileSystem_def mem_meta_def mem_opts_def mem_world_def
  example_opts_def example_world_def zero_FileState_def

lemmas local_defs = local_FileSystem_def local_OpenStream_def local_WriteStream_def
  local_Stat_def local_Delete_def toSysPath_def calculateMD5_def os_RemoveAll_def
  filepath_Dir_def os_MkdirAll_def ancestors_def os_Mkdir_def os_Create_def write_file_def
  os_Chtimes_def IsZero_def zeroTime_def

subsection \<open>Transfers and the snapshot\<close>

lemma map_of_update_same: "map_of (AList.update k v al) k = Some v"
  by (simp add: update_conv')

lemma DB_Put_stored:
  assumes "DB_Put L now st db = (None, db')"
  shows "\<exists>v. map_of (kv db') (st_RelPath st) = Some v
             \<and> json_Marshal L (st\<lparr>LastSyncTime := UnixNano now\<rparr>) = Inr v"
  using assms
  by (auto simp: DB_Put_def Update_def Bucket_Put_def Let_def map_of_update_same
      split: sum.splits prod.splits option.splits if_splits)

lemma local_Stat_disk: "snd (local_Stat L a p d) = d"
  by (simp add: local_Stat_def Let_def split: option.splits node.splits sum.splits)

lemma local_Stat_file:
  assumes "local_Stat L a p d = (Inr m, d')"
      and "map_of (nodes d) (toSysPath a p) = Some (File c t)"
  shows "Hash m = md5_hex L c" and "d' = d"
  using assms
  by (auto simp: local_Stat_def calculateMD5_def Let_def split: sum.splits)

lemma local_WriteStream_file:
  assumes "local_WriteStream L a p s mt d = (Inr h, d')"
  shows "\<exists>c t. map_of (nodes d') (toSysPath a p) = Some (File c t) \<and> h = md5_hex L c"
  using assms
  by (auto simp: local_WriteStream_def calculateMD5_def write_file_def os_Chtimes_def
      Let_def map_of_update_same
      split: sum.splits stream.splits option.splits node.splits if_splits)


lemma doUpload_local_hash:
  assumes fs: "LocalFS opts = local_FileSystem L a la rn"
      and run: "doUpload L opts p w = (None, w')"
      and isfile: "map_of (nodes (lfs w)) (toSysPath a p) = Some (File c t)"
  shows "\<exists>st v. map_of (kv (sdb w')) p = Some v \<and> json_Marshal L st = Inr v
           \<and> lfs w' = lfs w \<and> LocalHash st = md5_hex L c"
proof -
  have op: "fs_OpenStream (LocalFS opts) = local_OpenStream a"
    and st: "fs_Stat (LocalFS opts) = local_Stat L a"
    by (simp_all add: fs local_FileSystem_def)
  have o: "local_OpenStream a p (lfs w) = (Inr (Stream c None), lfs w)"
    using isfile by (simp add: local_OpenStream_def)
  have s: "local_Stat L a p (lfs w)
             = (Inr \<lparr>RelPath = p, Size = of_nat (length c), ModTime = t, IsDir = False,
                     Hash = md5_hex L c, RemoteHash = []\<rparr>, lfs w)"
    using isfile by (simp add: local_Stat_def calculateMD5_def)
  from run obtain ns db where
      put: "DB_Put L (time_Now w) ns (sdb w) = (None, db)"
      and ns: "st_RelPath ns = p" "LocalHash ns = md5_hex L c"
      and w': "sdb w' = db" "lfs w' = lfs w"
    by (auto simp: doUpload_def op st o s Let_def
        split: sum.splits prod.splits if_splits)
  from DB_Put_stored [OF put] obtain v where
      "map_of (kv db) p = Some v"
      "json_Marshal L (ns\<lparr>LastSyncTime := UnixNano (time_Now w)\<rparr>) = Inr v"
    using ns(1) by auto
  then show ?thesis using w' ns(2)
    by (intro exI [of _ "ns\<lparr>LastSyncTime := UnixNano (time_Now w)\<rparr>"] exI [of _ v]) simp
qed

lemma doDownload_local_hash:
  assumes fs: "LocalFS opts = local_FileSystem L a la rn"
      and run: "doDownload L opts p w = (None, w')"
  shows "\<exists>st v c t. map_of (kv (sdb w')) p = Some v \<and> json_Marshal L st = Inr v
           \<and> map_of (nodes (lfs w')) (toSysPath a p) = Some (File c t)
           \<and> LocalHash st = md5_hex L c"
proof -
  have wr: "fs_WriteStream (LocalFS opts) = local_WriteStream L a"
    and st: "fs_Stat (LocalFS opts) = local_Stat L a"
    by (simp_all add: fs local_FileSystem_def)
  from run obtain ns db s mt h l1 m l2 where
      put: "DB_Put L (time_Now w) ns (sdb w) = (None, db)"
      and ns: "st_RelPath ns = p" "LocalHash ns = h"
      and wrt: "local_WriteStream L a p s mt (lfs w) = (Inr h, l1)"
      and stat: "local_Stat L a p l1 = (Inr m, l2)"
      and w': "sdb w' = db" "lfs w' = l2"
    by (auto simp: doDownload_def wr st Let_def
        split: sum.splits prod.splits if_splits)
  from local_WriteStream_file [OF wrt] obtain c t where
      f: "map_of (nodes l1) (toSysPath a p) = Some (File c t)" and h: "h = md5_hex L c"
    by blast
  have l2: "l2 = l1" using local_Stat_disk [of L a p l1] stat by simp
  from DB_Put_stored [OF put] obtain v where
      "map_of (kv db) p = Some v"
      "json_Marshal L (ns\<lparr>LastSyncTime := UnixNano (time_Now w)\<rparr>) = Inr v"
    using ns(1) by auto
  then show ?thesis using w' ns(2) f h l2
    by (intro exI [of _ "ns\<lparr>LastSyncTime := UnixNano (time_Now w)\<rparr>"] exI [of _ v]
        exI [of _ c] exI [of _ t]) simp
qed

lemma example_upload:
  "fst (processTask example_lib example_opts
          \<lparr>Op = OpUpload, t_RelPath = ''a.txt'', Reason = []\<rparr> example_world) = None"
  by (simp add: engine_defs example_defs local_defs Let_def)

lemma example_download:
  "fst (processTask example_lib example_opts
          \<lparr>Op = OpDownload, t_RelPath = ''b.txt'', Reason = []\<rparr> example_world) = None"
  by (simp add: engine_defs example_defs local_defs Let_def)

text \<open>
  Claim C5. Let the local side be the local adapter and let an Upload or Download task
  for \<open>p\<close> return without error (for an Upload, of a regular file). Then the bucket
  holds under \<open>p\<close> the JSON record of a state \<open>st\<close>, \<open>p\<close> is a regular file on the local
  disk when the task is done, and \<open>local_hash\<close> of \<open>st\<close> is the MD5 of the content the file
  has then. The steps of the task run with nothing else writing to the disk.
\<close>

theorem transfer_records_local_md5:
  assumes "LocalFS opts = local_FileSystem L a la rn"
      and "op = OpUpload \<or> op = OpDownload"
      and "processTask L opts \<lparr>Op = op, t_RelPath = p, Reason = rsn\<rparr> w = (None, w')"
      and "op = OpUpload \<longrightarrow> (\<exists>c t. map_of (nodes (lfs w)) (toSysPath a p) = Some (File c t))"
  shows "\<exists>st v c t. map_of (kv (sdb w')) p = Some v \<and> json_Marshal L st = Inr v
           \<and> map_of (nodes (lfs w')) (toSysPath a p) = Some (File c t)
           \<and> LocalHash st = md5_hex L c"
proof (cases "op = OpUpload")
  case True
  then obtain c t where f: "map_of (nodes (lfs w)) (toSysPath a p) = Some (File c t)"
    using assms(4) by blast
  have "doUpload L opts p w = (None, w')"
    using assms(3) True by (simp add: processTask_def)
  from doUpload_local_hash [OF assms(1) this f] show ?thesis
    using f by auto
next
  case False
  then have "doDownload L opts p w = (None, w')"
    using assms(2,3) by (simp add: processTask_def)
  from doDownload_local_hash [OF assms(1) this] show ?thesis .
qed

theorem transfer_records_local_md5_witness:
  "(\<exists>st v c t.
      map_of (kv (sdb (snd (processTask example_lib example_opts
                 \<lparr>Op = OpUpload, t_RelPath = ''a.txt'', Reason = []\<rparr> example_world))))
        ''a.txt'' = Some v
    \<and> json_Marshal example_lib st = Inr v
    \<and> map_of (nodes (lfs (snd (processTask example_lib example_opts
                 \<lparr>Op = OpUpload, t_RelPath = ''a.txt'', Reason = []\<rparr> example_world))))
        (toSysPath \<lparr>rootDir = ''/data''\<rparr> ''a.txt'') = Some (File c t)
    \<and> LocalHash st = md5_hex example_lib c)
   \<and> (\<exists>st v c t.
      map_of (kv (sdb (snd (processTask example_lib example_opts
                 \<lparr>Op = OpDownload, t_RelPath = ''b.txt'', Reason = []\<rparr> example_world))))
        ''b.txt'' = Some v
    \<and> json_Marshal example_lib st = Inr v
    \<and> map_of (nodes (lfs (snd (processTask example_lib example_opts
                 \<lparr>Op = OpDownload, t_RelPath = ''b.txt'', Reason = []\<rparr> example_world))))
        (toSysPath \<lparr>rootDir = ''/data''\<rparr> ''b.txt'') = Some (File c t)
    \<and> LocalHash st = md5_hex example_lib c)"
proof -
  have h1: "LocalFS example_opts
              = local_FileSystem example_lib \<lparr>rootDir = ''/data''\<rparr>
                  (\<lambda>d. (Inr [], d)) (\<lambda>old new d. (None, d))"
    by (simp add: example_opts_def)
  have u2: "OpUpload = OpUpload \<or> OpUpload = OpDownload" by simp
  have u3: "processTask example_lib example_opts
              \<lparr>Op = OpUpload, t_RelPath = ''a.txt'', Reason = []\<rparr> example_world
            = (None, snd (processTask example_lib example_opts
                 \<lparr>Op = OpUpload, t_RelPath = ''a.txt'', Reason = []\<rparr> example_world))"
    using example_upload by (metis prod.collapse)
  have u4: "OpUpload = OpUpload \<longrightarrow>
              (\<exists>c t. map_of (nodes (lfs example_world))
                        (toSysPath \<lparr>rootDir = ''/data''\<rparr> ''a.txt'') = Some (File c t))"
    by (simp add: example_world_def toSysPath_def)
  have d2: "OpDownload = OpUpload \<or> OpDownload = OpDownload" by simp
  have d3: "processTask example_lib example_opts
              \<lparr>Op = OpDownload, t_RelPath = ''b.txt'', Reason = []\<rparr> example_world
            = (None, snd (processTask example_lib example_opts
                 \<lparr>Op = OpDownload, t_RelPath = ''b.txt'', Reason = []\<rparr> example_world))"
    using example_download by (metis prod.collapse)
  have d4: "OpDownload = OpUpload \<longrightarrow>
              (\<exists>c t. map_of (nodes (lfs example_world))
                        (toSysPath \<lparr>rootDir = ''/data''\<rparr> ''b.txt'') = Some (File c t))"
    by simp
  show ?thesis
    by (intro conjI transfer_records_local_md5 [OF h1 u2 u3 u4]
        transfer_records_local_md5 [OF h1 d2 d3 d4])
qed

subsection \<open>Deleting\<close>

lemma Client_Delete_ok_iff:
  "fst (Client_Delete L c remotePath srv) = None \<longleftrightarrow>
     (\<exists>js body resp.
        json_Marshal_strings L [remotePath] = Inr js
      \<and> fst (request L c ''POST'' PCSBaseURL
                [(''method'', ''filemanager''), (''opera'', ''delete'')]
                (url_Encode L [(''async'', ''2''), (''filelist'', js)]) srv) = Inr body
      \<and> json_Unmarshal_PCSResponse L body = Inr resp \<and> ErrNo resp = 0)"
  by (auto simp: Client_Delete_def Values_Set_def IsSuccess_def Let_def
      split: sum.splits prod.splits)

text \<open>
  Claim C6, as the code has it. The local \<open>Delete\<close> of a path that does not exist
  returns nil and leaves the disk as it is, since \<open>os.RemoveAll\<close> does. The remote
  \<open>Delete\<close> never looks whether the path exists: it returns nil exactly when the path
  can be mapped, the request goes through and the response parses with \<open>errno\<close> zero,
  so whether a missing path is an error is what the remote API answers.
\<close>

theorem Delete_of_absent_path:
  "(map_of (nodes d) (toSysPath a p) = None \<longrightarrow> local_Delete a p d = (None, d))
   \<and> (fst (baidu_Delete L b p srv) = None \<longleftrightarrow>
        (\<exists>absPath js body resp.
           toEncryptedAbsPath L b p = Inr absPath
         \<and> json_Marshal_strings L [absPath] = Inr js
         \<and> fst (request L (client b) ''POST'' PCSBaseURL
                   [(''method'', ''filemanager''), (''opera'', ''delete'')]
                   (url_Encode L [(''async'', ''2''), (''filelist'', js)]) srv) = Inr body
         \<and> json_Unmarshal_PCSResponse L body = Inr resp \<and> ErrNo resp = 0))"
proof -
  have l: "map_of (nodes d) (toSysPath a p) = None \<longrightarrow> local_Delete a p d = (None, d)"
    by (simp add: local_Delete_def os_RemoveAll_def)
  have r: "fst (baidu_Delete L b p srv) = None \<longleftrightarrow>
        (\<exists>absPath js body resp.
           toEncryptedAbsPath L b p = Inr absPath
         \<and> json_Marshal_strings L [absPath] = Inr js
         \<and> fst (request L (client b) ''POST'' PCSBaseURL
                   [(''method'', ''filemanager''), (''opera'', ''delete'')]
                   (url_Encode L [(''async'', ''2''), (''filelist'', js)]) srv) = Inr body
         \<and> json_Unmarshal_PCSResponse L body = Inr resp \<and> ErrNo resp = 0)"
  proof (cases "toEncryptedAbsPath L b p")
    case (Inl e)
    then show ?thesis by (simp add: baidu_Delete_def)
  next
    case (Inr absPath)
    then show ?thesis by (simp add: baidu_Delete_def Client_Delete_ok_iff)
  qed
  from l r show ?thesis by blast
qed

theorem Delete_of_absent_path_witness:
  "local_Delete \<lparr>rootDir = ''/data''\<rparr> ''c.txt'' (lfs example_world)
     = (None, lfs example_world)
   \<and> fst (baidu_Delete example_lib
          \<lparr>client = \<lparr>AccessToken = ''token'', UserAgent = ''pan.baidu.com'',
                      http_Do = (\<lambda>method url body srv. (Inr [0], srv))\<rparr>,
           root = ''/apps/baidusync'', encryptKey = [], encryptFilenames = False\<rparr>
          ''c.txt'' ()) = None"
  using Delete_of_absent_path [where a = "\<lparr>rootDir = ''/data''\<rparr>" and p = "''c.txt''"
      and d = "lfs example_world" and L = example_lib
      and b = "\<lparr>client = \<lparr>AccessToken = ''token'', UserAgent = ''pan.baidu.com'',
                      http_Do = (\<lambda>method url body srv. (Inr [0], srv))\<rparr>,
           root = ''/apps/baidusync'', encryptKey = [], encryptFilenames = False\<rparr>"
      and srv = "()"]
  by (simp add: example_world_def example_lib_def toSysPath_def toEncryptedAbsPath_def
      toAbsPath_def request_def)

text \<open>
  Claim C6 as stated fails on the local side: \<open>gone.txt\<close> is not on the disk, and
  \<open>Delete\<close> returns nil.
\<close>

theorem local_Delete_absent_returns_nil:
  "map_of (nodes \<lparr>nodes = [(''/data'', Dir 4096 0), (''/data/a.txt'', File [1, 2, 3] 0)], os_now = 0\<rparr>)
     (toSysPath \<lparr>rootDir = ''/data''\<rparr> ''gone.txt'') = None
   \<and> local_Delete \<lparr>rootDir = ''/data''\<rparr> ''gone.txt''
        \<lparr>nodes = [(''/data'', Dir 4096 0), (''/data/a.txt'', File [1, 2, 3] 0)], os_now = 0\<rparr>
      = (None, \<lparr>nodes = [(''/data'', Dir 4096 0), (''/data/a.txt'', File [1, 2, 3] 0)], os_now = 0\<rparr>)"
  by (simp add: local_Delete_def os_RemoveAll_def toSysPath_def)

text \<open>
  Claim C7. A DeleteRemote or DeleteLocal task deletes on its file system first. When
  that fails with \<open>e\<close>, the task returns \<open>e\<close> and the world differs from the one before
  in that file system only: the database, and with it the snapshot entry, is as it was.
  When it succeeds, the task goes on to \<open>DB.Delete\<close> of the path on the database as it
  was, and returns what that returns.
\<close>

theorem delete_task_order:
  "(fs_Delete (RemoteFS opts) p (rfs w) = (Some e, r1) \<longrightarrow>
      processTask L opts \<lparr>Op = OpDeleteRemote, t_RelPath = p, Reason = rsn\<rparr> w
        = (Some e, w\<lparr>rfs := r1\<rparr>))
   \<and> (fs_Delete (RemoteFS opts) p (rfs w) = (None, r1) \<longrightarrow>
      processTask L opts \<lparr>Op = OpDeleteRemote, t_RelPath = p, Reason = rsn\<rparr> w
        = (fst (DB_Delete p (sdb w)), w\<lparr>rfs := r1, sdb := snd (DB_Delete p (sdb w))\<rparr>))
   \<and> (fs_Delete (LocalFS opts) p (lfs w) = (Some e, l1) \<longrightarrow>
      processTask L opts \<lparr>Op = OpDeleteLocal, t_RelPath = p, Reason = rsn\<rparr> w
        = (Some e, w\<lparr>lfs := l1\<rparr>))
   \<and> (fs_Delete (LocalFS opts) p (lfs w) = (None, l1) \<longrightarrow>
      processTask L opts \<lparr>Op = OpDeleteLocal, t_RelPath = p, Reason = rsn\<rparr> w
        = (fst (DB_Delete p (sdb w)), w\<lparr>lfs := l1, sdb := snd (DB_Delete p (sdb w))\<rparr>))"
  by (simp add: processTask_def split: prod.splits)

theorem delete_task_order_witness:
  "processTask example_lib mem_opts \<lparr>Op = OpDeleteRemote, t_RelPath = ''f.txt'', Reason = []\<rparr>
      (mem_world [] [] \<lparr>kv = [(''f.txt'', [123, 125])], tx_faults = []\<rparr>)
     = (Some (Err ''file not found''),
        mem_world [] [] \<lparr>kv = [(''f.txt'', [123, 125])], tx_faults = []\<rparr>)
   \<and> processTask example_lib mem_opts \<lparr>Op = OpDeleteLocal, t_RelPath = ''f.txt'', Reason = []\<rparr>
      (mem_world [(''f.txt'', [1])] [] \<lparr>kv = [(''f.txt'', [123, 125])], tx_faults = []\<rparr>)
     = (None, mem_world [] [] \<lparr>kv = [], tx_faults = []\<rparr>)"
  using delete_task_order [where opts = mem_opts and p = "''f.txt''" and rsn = "[]"
      and w = "mem_world [] [] \<lparr>kv = [(''f.txt'', [123, 125])], tx_faults = []\<rparr>"
      and e = "Err ''file not found''" and ?r1.0 = "[]" and ?l1.0 = "[]" and L = example_lib]
    delete_task_order [where opts = mem_opts and p = "''f.txt''" and rsn = "[]"
      and w = "mem_world [(''f.txt'', [1])] [] \<lparr>kv = [(''f.txt'', [123, 125])], tx_faults = []\<rparr>"
      and e = "Err ''file not found''" and ?r1.0 = "[]" and ?l1.0 = "[]" and L = example_lib]
  by (simp add: example_defs DB_Delete_def Update_def begin_tx_def Bucket_Delete_def)

subsection \<open>The listing of the snapshot store and the cycle\<close>

lemma ForEach_unmarshal_corrupt:
  assumes "(k, v) \<in> set b" and "json_Unmarshal L v = Inl e"
  shows "\<exists>e'. ForEach_unmarshal L b acc = Inl e'"
  using assms
proof (induction b arbitrary: acc)
  case Nil
  then show ?case by simp
next
  case (Cons x b)
  obtain k' v' where x: "x = (k', v')" by (cases x)
  show ?case
  proof (cases "json_Unmarshal L v'")
    case (Inl a)
    then show ?thesis by (simp add: x)
  next
    case (Inr st)
    then have "(k, v) \<in> set b" using Cons.prems x by auto
    then show ?thesis using Cons.IH Cons.prems(2) Inr by (simp add: x)
  qed
qed

lemma DB_ListAll_corrupt:
  assumes "(k, v) \<in> set (kv db)" and "json_Unmarshal L v = Inl e"
  shows "\<exists>e'. fst (DB_ListAll L db) = Inl e'" "kv (snd (DB_ListAll L db)) = kv db"
proof -
  have kv: "kv (snd (begin_tx db)) = kv db"
    by (simp add: begin_tx_def split: list.splits)
  show "\<exists>e'. fst (DB_ListAll L db) = Inl e'"
    using ForEach_unmarshal_corrupt [OF assms(1)[folded kv] assms(2)]
    by (auto simp: DB_ListAll_def split: prod.splits option.splits)
  show "kv (snd (DB_ListAll L db)) = kv db"
    using kv by (auto simp: DB_ListAll_def split: prod.splits option.splits)
qed

text \<open>
  Claim C8. When the record of one key does not deserialise, \<open>DB.ListAll\<close> returns an
  error and no map. The cycle that asked for the listing returns an error too and
  stops there: the world it leaves is the one after the three scans, no task and no
  index rebuild has run, and the bucket is as it was.
\<close>

theorem ListAll_corrupt_record_aborts:
  assumes "(k, v) \<in> set (kv (sdb w))" and "json_Unmarshal L v = Inl e"
  shows "(\<exists>e'. fst (DB_ListAll L (sdb w)) = Inl e')
       \<and> (\<exists>e'. fst (Run L opts ctx range_order w) = Some e')
       \<and> snd (Run L opts ctx range_order w)
           = w\<lparr>lfs := snd (fs_ListAll (LocalFS opts) (lfs w)),
               rfs := snd (fs_ListAll (RemoteFS opts) (rfs w)),
               sdb := snd (DB_ListAll L (sdb w))\<rparr>
       \<and> kv (sdb (snd (Run L opts ctx range_order w))) = kv (sdb w)"
proof -
  obtain e' where e': "fst (DB_ListAll L (sdb w)) = Inl e'"
    using DB_ListAll_corrupt(1) [OF assms] by blast
  have r: "(\<exists>e'. fst (Run L opts ctx range_order w) = Some e')
       \<and> snd (Run L opts ctx range_order w)
           = w\<lparr>lfs := snd (fs_ListAll (LocalFS opts) (lfs w)),
               rfs := snd (fs_ListAll (RemoteFS opts) (rfs w)),
               sdb := snd (DB_ListAll L (sdb w))\<rparr>"
    using e' by (auto simp: Run_def Let_def split: prod.splits sum.splits)
  then show ?thesis using e' DB_ListAll_corrupt(2) [OF assms] by simp
qed

theorem ListAll_corrupt_record_aborts_witness:
  "(\<exists>e'. fst (DB_ListAll example_lib
              (sdb (mem_world [(''a.txt'', [1, 2, 3])] []
                      \<lparr>kv = [(''a.txt'', [123, 125]), (''b.txt'', [1])], tx_faults = []\<rparr>)))
            = Inl e')
   \<and> (\<exists>e'. fst (Run example_lib mem_opts None id
                 (mem_world [(''a.txt'', [1, 2, 3])] []
                    \<lparr>kv = [(''a.txt'', [123, 125]), (''b.txt'', [1])], tx_faults = []\<rparr>))
            = Some e')
   \<and> kv (sdb (snd (Run example_lib mem_opts None id
                 (mem_world [(''a.txt'', [1, 2, 3])] []
                    \<lparr>kv = [(''a.txt'', [123, 125]), (''b.txt'', [1])], tx_faults = []\<rparr>))))
       = [(''a.txt'', [123, 125]), (''b.txt'', [1])]"
proof -
  have h1: "(''b.txt'', [1])
              \<in> set (kv (sdb (mem_world [(''a.txt'', [1, 2, 3])] []
                     \<lparr>kv = [(''a.txt'', [123, 125]), (''b.txt'', [1])], tx_faults = []\<rparr>)))"
    by (simp add: mem_world_def)
  have h2: "json_Unmarshal example_lib [1] = Inl (Err ''invalid character'')"
    by (simp add: example_lib_def)
  have k: "kv (sdb (mem_world [(''a.txt'', [1, 2, 3])] []
                     \<lparr>kv = [(''a.txt'', [123, 125]), (''b.txt'', [1])], tx_faults = []\<rparr>))
             = [(''a.txt'', [123, 125]), (''b.txt'', [1])]"
    by (simp add: mem_world_def)
  note t = ListAll_corrupt_record_aborts [OF h1 h2, of mem_opts None id]
  show ?thesis
    by (intro conjI t [THEN conjunct1] t [THEN conjunct2, THEN conjunct1]
        trans [OF t [THEN conjunct2, THEN conjunct2, THEN conjunct2] k])
qed

lemma worker_collects:
  assumes "i < length tasks"
      and "case ctx of None \<Rightarrow> True | Some n \<Rightarrow> i < n"
      and "fst (processTask L opts (tasks ! i) (snd (worker L opts ctx (take i tasks) w))) = Some e"
  shows "e \<in> set (fst (worker L opts ctx tasks w))"
  using assms
proof (induction tasks arbitrary: i ctx w)
  case Nil
  then show ?case by simp
next
  case (Cons task tasks)
  have nz: "ctx \<noteq> Some 0" using Cons.prems(2) by (auto split: option.splits)
  obtain res w1 where p: "processTask L opts task w = (res, w1)" by (cases "processTask L opts task w")
  obtain errs w2 where r: "worker L opts (map_option (\<lambda>n. n - 1) ctx) tasks w1 = (errs, w2)"
    by (cases "worker L opts (map_option (\<lambda>n. n - 1) ctx) tasks w1")
  show ?case
  proof (cases i)
    case 0
    then have "res = Some e" using Cons.prems(3) p by simp
    then show ?thesis using nz p r by simp
  next
    case (Suc j)
    have j: "j < length tasks" using Cons.prems(1) Suc by simp
    have c: "case map_option (\<lambda>n. n - 1) ctx of None \<Rightarrow> True | Some n \<Rightarrow> j < n"
      using Cons.prems(2) Suc by (auto split: option.splits)
    have "snd (worker L opts ctx (take i (task # tasks)) w)
            = snd (worker L opts (map_option (\<lambda>n. n - 1) ctx) (take j tasks) w1)"
      using nz p Suc by (simp split: prod.splits)
    then have "fst (processTask L opts (tasks ! j)
                 (snd (worker L opts (map_option (\<lambda>n. n - 1) ctx) (take j tasks) w1))) = Some e"
      using Cons.prems(3) Suc by simp
    from Cons.IH [OF j c this] have "e \<in> set errs" using r by simp
    then show ?thesis using nz p r by simp
  qed
qed

lemma Run_scans_ok:
  assumes "fs_ListAll (LocalFS opts) (lfs w) = (Inr localMap, l1)"
      and "fs_ListAll (RemoteFS opts) (rfs w) = (Inr remoteMap, r1)"
      and "DB_ListAll L (sdb w) = (Inr baseMap, db1)"
      and "planTasks L opts localMap remoteMap baseMap
             (range_order (remdups (map fst localMap @ map fst remoteMap @ map fst baseMap)))
             (w\<lparr>lfs := l1, rfs := r1, sdb := db1\<rparr>) = (tasks, w2)"
      and "0 < MaxWorkers opts"
  shows "fst (Run L opts ctx range_order w) =
           (case fst (worker L opts ctx tasks w2) of
              [] \<Rightarrow> None
            | e # es \<Rightarrow> Some (Errs ''task(s) failed'' (e # es)))"
proof (cases tasks)
  case Nil
  then show ?thesis using assms by (simp add: Run_def Let_def)
next
  case (Cons t ts)
  then show ?thesis using assms
    by (simp add: Run_def Let_def split: prod.splits list.splits)
qed

text \<open>
  Claim C9, as the code has it. An error of a scan is what \<open>Run\<close> returns (the first in
  the order local, remote, database, under the name of its scan). When the scans
  succeed, \<open>Run\<close> returns nil if the workers collected no error and otherwise the
  summary error over all they collected, and every error that \<open>processTask\<close> returns for
  a task a worker started is among them. Errors of the snapshot-store write in the
  index rebuild are not part of this: they are logged only.
\<close>

theorem Run_reports_errors:
  "(fst (fs_ListAll (LocalFS opts) (lfs w)) = Inl e \<longrightarrow>
      fst (Run L opts ctx range_order w) = Some (Wrap ''scan local failed'' e))
   \<and> (fst (fs_ListAll (LocalFS opts) (lfs w)) = Inr localMap
      \<and> fst (fs_ListAll (RemoteFS opts) (rfs w)) = Inl e \<longrightarrow>
      fst (Run L opts ctx range_order w) = Some (Wrap ''scan remote failed'' e))
   \<and> (fst (fs_ListAll (LocalFS opts) (lfs w)) = Inr localMap
      \<and> fst (fs_ListAll (RemoteFS opts) (rfs w)) = Inr remoteMap
      \<and> fst (DB_ListAll L (sdb w)) = Inl e \<longrightarrow>
      fst (Run L opts ctx range_order w) = Some (Wrap ''scan db failed'' e))
   \<and> (fs_ListAll (LocalFS opts) (lfs w) = (Inr localMap, l1)
      \<and> fs_ListAll (RemoteFS opts) (rfs w) = (Inr remoteMap, r1)
      \<and> DB_ListAll L (sdb w) = (Inr baseMap, db1)
      \<and> planTasks L opts localMap remoteMap baseMap
           (range_order (remdups (map fst localMap @ map fst remoteMap @ map fst baseMap)))
           (w\<lparr>lfs := l1, rfs := r1, sdb := db1\<rparr>) = (tasks, w2)
      \<and> 0 < MaxWorkers opts \<longrightarrow>
      fst (Run L opts ctx range_order w) =
           (case fst (worker L opts ctx tasks w2) of
              [] \<Rightarrow> None
            | e # es \<Rightarrow> Some (Errs ''task(s) failed'' (e # es)))
      \<and> (\<forall>i err. i < length tasks
            \<and> (case ctx of None \<Rightarrow> True | Some n \<Rightarrow> i < n)
            \<and> fst (processTask L opts (tasks ! i)
                     (snd (worker L opts ctx (take i tasks) w2))) = Some err
            \<longrightarrow> err \<in> set (fst (worker L opts ctx tasks w2))))"
proof -
  have a: "fst (fs_ListAll (LocalFS opts) (lfs w)) = Inl e \<longrightarrow>
      fst (Run L opts ctx range_order w) = Some (Wrap ''scan local failed'' e)"
    by (auto simp: Run_def Let_def split: prod.splits sum.splits)
  have b: "fst (fs_ListAll (LocalFS opts) (lfs w)) = Inr localMap
      \<and> fst (fs_ListAll (RemoteFS opts) (rfs w)) = Inl e \<longrightarrow>
      fst (Run L opts ctx range_order w) = Some (Wrap ''scan remote failed'' e)"
    by (auto simp: Run_def Let_def split: prod.splits sum.splits)
  have c: "fst (fs_ListAll (LocalFS opts) (lfs w)) = Inr localMap
      \<and> fst (fs_ListAll (RemoteFS opts) (rfs w)) = Inr remoteMap
      \<and> fst (DB_ListAll L (sdb w)) = Inl e \<longrightarrow>
      fst (Run L opts ctx range_order w) = Some (Wrap ''scan db failed'' e)"
    by (auto simp: Run_def Let_def split: prod.splits sum.splits)
  have d: "fs_ListAll (LocalFS opts) (lfs w) = (Inr localMap, l1)
      \<and> fs_ListAll (RemoteFS opts) (rfs w) = (Inr remoteMap, r1)
      \<and> DB_ListAll L (sdb w) = (Inr baseMap, db1)
      \<and> planTasks L opts localMap remoteMap baseMap
           (range_order (remdups (map fst localMap @ map fst remoteMap @ map fst baseMap)))
           (w\<lparr>lfs := l1, rfs := r1, sdb := db1\<rparr>) = (tasks, w2)
      \<and> 0 < MaxWorkers opts \<longrightarrow>
      fst (Run L opts ctx range_order w) =
           (case fst (worker L opts ctx tasks w2) of
              [] \<Rightarrow> None
            | e # es \<Rightarrow> Some (Errs ''task(s) failed'' (e # es)))"
    using Run_scans_ok [of opts w localMap l1 remoteMap r1 L baseMap db1 range_order tasks w2 ctx]
    by blast
  have f: "\<forall>i err. i < length tasks
            \<and> (case ctx of None \<Rightarrow> True | Some n \<Rightarrow> i < n)
            \<and> fst (processTask L opts (tasks ! i)
                     (snd (worker L opts ctx (take i tasks) w2))) = Some err
            \<longrightarrow> err \<in> set (fst (worker L opts ctx tasks w2))"
    using worker_collects [of _ tasks ctx L opts w2] by blast
  from a b c d f show ?thesis by blast
qed

theorem Run_reports_errors_witness:
  "fst (Run example_lib mem_opts None id
          (mem_world [(''a.txt'', [1, 2, 3])] []
             \<lparr>kv = [], tx_faults = [None, Some (Err ''disk full'')]\<rparr>))
     = Some (Errs ''task(s) failed'' [Err ''disk full''])
   \<and> Err ''disk full''
       \<in> set (fst (worker example_lib mem_opts None
                     [\<lparr>Op = OpUpload, t_RelPath = ''a.txt'', Reason = []\<rparr>]
                     (mem_world [(''a.txt'', [1, 2, 3])] []
                        \<lparr>kv = [], tx_faults = [Some (Err ''disk full'')]\<rparr>)))"
  using Run_reports_errors [where L = example_lib and opts = mem_opts and ctx = None
      and range_order = id
      and w = "mem_world [(''a.txt'', [1, 2, 3])] []
                 \<lparr>kv = [], tx_faults = [None, Some (Err ''disk full'')]\<rparr>"
      and localMap = "[(''a.txt'', mem_meta ''a.txt'' [1, 2, 3])]"
      and ?l1.0 = "[(''a.txt'', [1, 2, 3])]"
      and remoteMap = "[]" and ?r1.0 = "[]" and baseMap = "[]"
      and e = "Err ''disk full''"
      and ?db1.0 = "\<lparr>kv = [], tx_faults = [Some (Err ''disk full'')]\<rparr>"
      and tasks = "[\<lparr>Op = OpUpload, t_RelPath = ''a.txt'', Reason = []\<rparr>]"
      and ?w2.0 = "mem_world [(''a.txt'', [1, 2, 3])] []
                 \<lparr>kv = [], tx_faults = [Some (Err ''disk full'')]\<rparr>"]
  by (simp add: engine_defs example_defs Let_def)

text \<open>
  Claim C9 as stated fails in the index rebuild. Both sides hold \<open>a.txt\<close> with the same
  size and the snapshot is empty, so the cycle rebuilds the entry; the write to the
  store fails (disk full), and the cycle returns nil all the same, with the entry not
  written.
\<close>

theorem Run_swallows_rebuild_error:
  "fst (Run example_lib mem_opts None id
          (mem_world [(''a.txt'', [1, 2, 3])] [(''a.txt'', [4, 5, 6])]
             \<lparr>kv = [], tx_faults = [None, Some (Err ''disk full'')]\<rparr>)) = None
   \<and> snd (Run example_lib mem_opts None id
          (mem_world [(''a.txt'', [1, 2, 3])] [(''a.txt'', [4, 5, 6])]
             \<lparr>kv = [], tx_faults = [None, Some (Err ''disk full'')]\<rparr>))
     = rebuildIndex example_lib ''a.txt'' (mem_meta ''a.txt'' [1, 2, 3]) (mem_meta ''a.txt'' [4, 5, 6])
         (mem_world [(''a.txt'', [1, 2, 3])] [(''a.txt'', [4, 5, 6])]
            \<lparr>kv = [], tx_faults = [Some (Err ''disk full'')]\<rparr>)
   \<and> fst (DB_Put example_lib 10
            \<lparr>st_RelPath = ''a.txt'', FileSize = 3, st_ModTime = 0, LocalHash = [],
             st_RemoteHash = [], st_IsDir = False, LastSyncTime = 0\<rparr>
            \<lparr>kv = [], tx_faults = [Some (Err ''disk full'')]\<rparr>) = Some (Err ''disk full'')
   \<and> kv (sdb (snd (Run example_lib mem_opts None id
          (mem_world [(''a.txt'', [1, 2, 3])] [(''a.txt'', [4, 5, 6])]
             \<lparr>kv = [], tx_faults = [None, Some (Err ''disk full'')]\<rparr>)))) = []"
  by (simp add: engine_defs example_defs Let_def UnixNano_def)

subsection \<open>Lost snapshot entries\<close>

lemma planTasks_tasks:
  assumes "t \<in> set (fst (planTasks L opts localMap remoteMap baseMap paths w))"
  shows "\<exists>path \<in> set paths.
           t = \<lparr>Op = compare (EncryptKey opts) path (map_of localMap path)
                       (map_of remoteMap path) (map_of baseMap path),
                t_RelPath = path, Reason = []\<rparr>"
  using assms
proof (induction paths arbitrary: w)
  case Nil
  then show ?case by simp
next
  case (Cons path paths)
  let ?op = "compare (EncryptKey opts) path (map_of localMap path)
               (map_of remoteMap path) (map_of baseMap path)"
  show ?case
  proof (cases "?op \<noteq> OpIgnore")
    case True
    then have "t = \<lparr>Op = ?op, t_RelPath = path, Reason = []\<rparr>
               \<or> t \<in> set (fst (planTasks L opts localMap remoteMap baseMap paths w))"
      using Cons.prems by (auto simp: Let_def split: prod.splits)
    then show ?thesis using Cons.IH by auto
  next
    case False
    then obtain w' where
      "t \<in> set (fst (planTasks L opts localMap remoteMap baseMap paths w'))"
      using Cons.prems by (auto simp: Let_def split: if_splits)
    then show ?thesis using Cons.IH by auto
  qed
qed

text \<open>
  Claim C10. Without a snapshot entry \<open>compare\<close> never asks for a deletion: whatever
  the two sides are, its result is Ignore, Upload, Download or Conflict. So the cycle
  queues no DeleteLocal and no DeleteRemote task for a path whose snapshot entry is lost.
\<close>

theorem compare_base_absent_no_delete:
  "compare key p local remote None \<in> {OpIgnore, OpUpload, OpDownload, OpConflict}
   \<and> compare key p local remote None \<noteq> OpDeleteLocal
   \<and> compare key p local remote None \<noteq> OpDeleteRemote
   \<and> (\<forall>t \<in> set (fst (planTasks L opts localMap remoteMap baseMap paths w)).
         map_of baseMap (t_RelPath t) = None \<longrightarrow>
         Op t \<noteq> OpDeleteLocal \<and> Op t \<noteq> OpDeleteRemote)"
proof -
  have c: "compare k q l r None \<noteq> OpDeleteLocal \<and> compare k q l r None \<noteq> OpDeleteRemote"
    for k q l r
    by (simp add: compare_def)
  have "Op t \<noteq> OpDeleteLocal \<and> Op t \<noteq> OpDeleteRemote"
    if "t \<in> set (fst (planTasks L opts localMap remoteMap baseMap paths w))"
      and "map_of baseMap (t_RelPath t) = None" for t
    using planTasks_tasks [OF that(1)] that(2) c by auto
  then show ?thesis by (simp add: compare_def)
qed

theorem compare_base_absent_no_delete_witness:
  "compare [] ''f.txt'' None (Some (mem_meta ''f.txt'' [1, 2])) None = OpDownload
   \<and> fst (planTasks example_lib mem_opts [] [(''f.txt'', mem_meta ''f.txt'' [1, 2])] []
            [''f.txt''] (mem_world [] [(''f.txt'', [1, 2])] \<lparr>kv = [], tx_faults = []\<rparr>))
      = [\<lparr>Op = OpDownload, t_RelPath = ''f.txt'', Reason = []\<rparr>]"
  using compare_base_absent_no_delete [where key = "[]" and p = "''f.txt''" and local = None
      and remote = "Some (mem_meta ''f.txt'' [1, 2])" and L = example_lib and opts = mem_opts
      and localMap = "[]" and remoteMap = "[(''f.txt'', mem_meta ''f.txt'' [1, 2])]"
      and baseMap = "[]" and paths = "[''f.txt'']"
      and w = "mem_world [] [(''f.txt'', [1, 2])] \<lparr>kv = [], tx_faults = []\<rparr>"]
  by (simp add: compare_def mem_meta_def mem_opts_def)
end
